theory Spec2Isabelle
  imports Complex_Main "HOL-Library.Word"
begin

section \<open>Shared vocabulary\<close>

text \<open>
  Exceptions are values.  One datatype lists every exception class the modelled
  functions raise; \<open>ConditionFailed\<close> stands for whatever the repository's
  \<open>Condition\<close> / \<open>Precondition\<close> helpers raise, and \<open>ParseError\<close> for whatever
  the \<open>from_str\<close> helpers of the model classes raise (those helpers are declared
  in modules that are not among the sources).
\<close>

datatype py_error =
    ValueError
  | TypeError
  | KeyError
  | AttributeError
  | AssertionError
  | OverflowError
  | InvalidOperation
  | ConditionFailed
  | ParseError

text \<open>
  A method that raises leaves its object as far as it got.  An outcome therefore
  carries the state in both cases.
\<close>

datatype 'a outcome = Returned 'a | Raised py_error 'a

fun outcome_state :: "'a outcome \<Rightarrow> 'a" where
  "outcome_state (Returned s) = s"
| "outcome_state (Raised e s) = s"

text \<open>
  Cython, as it compiled these sources (before version 3).  A \<open>cdef\<close> or \<open>cpdef\<close>
  function with a C return type (\<open>void\<close>, \<open>int\<close>) whose signature has no \<open>except\<close>
  clause cannot hand an exception to its caller: the exception is written to
  stderr as unraisable and the call returns at once and normally, a \<open>void\<close>
  function with its object as the raise left it, an \<open>int\<close> function with the
  value 0.  Such a function, when something in it can raise, is modelled twice:
  its body, with every \<open>raise\<close> a branch (named \<open>..._body\<close>), and the call as a
  caller sees it, which is the state the body's outcome carries.  A function
  that returns a Python object, or whose signature says \<open>except *\<close>, propagates.
\<close>

text \<open>
  A \<open>datetime\<close> is a position on a discrete time line, in microseconds, and it
  carries a \<open>tzinfo\<close> or not.  The aware datetimes of this system are in UTC, so
  the position of an aware datetime is its instant and that of a naive one its
  wall-clock reading.  Python orders two datetimes when both or neither carry a
  \<open>tzinfo\<close>; comparing an aware with a naive one raises \<open>TypeError\<close>.  Adding a
  \<open>timedelta\<close> (here a number of microseconds) keeps the \<open>tzinfo\<close>.
\<close>

record datetime =
  dt_micros :: int
  dt_aware :: bool

definition utc :: "int \<Rightarrow> datetime" where
  "utc t = \<lparr>dt_micros = t, dt_aware = True\<rparr>"

definition dt_le :: "datetime \<Rightarrow> datetime \<Rightarrow> py_error + bool" where
  "dt_le a b =
     (if dt_aware a = dt_aware b then Inr (dt_micros a \<le> dt_micros b) else Inl TypeError)"

definition dt_add :: "datetime \<Rightarrow> int \<Rightarrow> datetime" where
  "dt_add a d = a\<lparr>dt_micros := dt_micros a + d\<rparr>"

section \<open>Bar aggregation (\<open>nautilus_trader/common/market.pyx\<close>)\<close>

subsection \<open>Data\<close>

text \<open>
  The enums and value classes below are imported by \<open>market.pyx\<close> from modules
  that are not among the sources; the model lists the members the code
  mentions and keeps the attributes the code reads.  \<open>UNDEFINED\<close> and \<open>LAST\<close> are
  the price types for which \<open>_get_price\<close> reaches its final \<open>else\<close>.
\<close>

datatype PriceType = UNDEFINED | BID | ASK | MID | LAST

datatype BarStructure = TICK | SECOND | MINUTE | HOUR | DAY

text \<open>Of a \<open>Price\<close> the code reads only the attribute \<open>.value\<close>, an exact number.\<close>

record Price =
  price_value :: rat

record Tick =
  bid :: Price
  ask :: Price
  bid_size :: int
  ask_size :: int
  timestamp :: datetime

record BarSpecification =
  step :: int
  bar_structure :: BarStructure
  price_type :: PriceType

record BarType =
  symbol :: string
  bar_specification :: BarSpecification

text \<open>
  \<open>Bar(..., checked=False)\<close>: with \<open>checked\<close> off the constructor validates nothing
  and stores its arguments, so every price slot holds whatever the builder held,
  \<open>None\<close> included.
\<close>

record Bar =
  open_price :: "Price option"
  high_price :: "Price option"
  low_price :: "Price option"
  close_price :: "Price option"
  volume :: int
  bar_timestamp :: "datetime option"

record BarBuilder =
  bar_spec :: BarSpecification
  last_update :: "datetime option"
  count :: int
  b_open :: "Price option"
  b_high :: "Price option"
  b_low :: "Price option"
  b_close :: "Price option"
  b_volume :: int
  use_previous_close :: bool

subsection \<open>\<open>BarBuilder\<close>\<close>

definition BarBuilder_init :: "BarSpecification \<Rightarrow> bool \<Rightarrow> BarBuilder" where
  "BarBuilder_init spec upc =
     \<lparr> bar_spec = spec, last_update = None, count = 0,
       b_open = None, b_high = None, b_low = None, b_close = None,
       b_volume = 0, use_previous_close = upc \<rparr>"

text \<open>
  \<open>_get_price\<close> (\<open>cdef Price\<close>: it returns an object, so its \<open>raise\<close> propagates).
  The constructor call \<open>Price(x)\<close> belongs to the absent \<open>Price\<close> class; it is the
  parameter \<open>mk\<close>.  The call passes the midpoint and nothing else: no precision,
  and nothing of the \<open>BarSpecification\<close>.
\<close>

definition get_price :: "(rat \<Rightarrow> Price) \<Rightarrow> BarBuilder \<Rightarrow> Tick \<Rightarrow> py_error + Price" where
  "get_price mk b tick =
     (if price_type (bar_spec b) = MID
        then Inr (mk ((price_value (bid tick) + price_value (ask tick)) / 2))
      else if price_type (bar_spec b) = BID then Inr (bid tick)
      else if price_type (bar_spec b) = ASK then Inr (ask tick)
      else Inl ValueError)"

text \<open>
  \<open>_get_volume\<close> is declared \<open>cdef int\<close> with no \<open>except\<close> clause: its \<open>raise\<close> is
  swallowed and the call returns 0.
\<close>

definition get_volume_body :: "BarBuilder \<Rightarrow> Tick \<Rightarrow> py_error + int" where
  "get_volume_body b tick =
     (if price_type (bar_spec b) = MID then Inr ((bid_size tick + ask_size tick) div 2)
      else if price_type (bar_spec b) = BID then Inr (bid_size tick)
      else if price_type (bar_spec b) = ASK then Inr (ask_size tick)
      else Inl ValueError)"

definition get_volume :: "BarBuilder \<Rightarrow> Tick \<Rightarrow> int" where
  "get_volume b tick = (case get_volume_body b tick of Inl e \<Rightarrow> 0 | Inr v \<Rightarrow> v)"

text \<open>
  The body of \<open>update\<close>.  Every raise in it happens before its first assignment,
  so a raise leaves the builder as it was and the error side needs no state.
  Reading \<open>.value\<close> of a \<open>None\<close> high or low raises \<open>AttributeError\<close>.
\<close>

definition BarBuilder_update_body :: "(rat \<Rightarrow> Price) \<Rightarrow> BarBuilder \<Rightarrow> Tick \<Rightarrow> py_error + BarBuilder" where
  "BarBuilder_update_body mk b tick =
     (case get_price mk b tick of
        Inl e \<Rightarrow> Inl e
      | Inr quote \<Rightarrow>
          (case (case b_open b of
                   None \<Rightarrow> Inr (b\<lparr>b_open := Some quote, b_high := Some quote, b_low := Some quote\<rparr>)
                 | Some _ \<Rightarrow>
                     (case b_high b of
                        None \<Rightarrow> Inl AttributeError
                      | Some h \<Rightarrow>
                          if price_value quote > price_value h then Inr (b\<lparr>b_high := Some quote\<rparr>)
                          else (case b_low b of
                                  None \<Rightarrow> Inl AttributeError
                                | Some l \<Rightarrow>
                                    if price_value quote < price_value l
                                      then Inr (b\<lparr>b_low := Some quote\<rparr>)
                                    else Inr b))) of
             Inl e \<Rightarrow> Inl e
           | Inr b1 \<Rightarrow>
               Inr (b1\<lparr>b_close := Some quote,
                       b_volume := b_volume b1 + get_volume b tick,
                       count := count b1 + 1,
                       last_update := Some (timestamp tick)\<rparr>)))"

text \<open>
  \<open>update\<close> as it is called.  The method is declared \<open>cpdef void update(self, Tick
  tick)\<close> with no \<open>except\<close> clause, so an exception raised in its body never
  reaches the caller: the call returns with the builder as the raise left it,
  which is the builder as it was.
\<close>

definition BarBuilder_update :: "(rat \<Rightarrow> Price) \<Rightarrow> BarBuilder \<Rightarrow> Tick \<Rightarrow> BarBuilder" where
  "BarBuilder_update mk b tick =
     (case BarBuilder_update_body mk b tick of Inl e \<Rightarrow> b | Inr b' \<Rightarrow> b')"

definition BarBuilder_reset :: "BarBuilder \<Rightarrow> BarBuilder" where
  "BarBuilder_reset b =
     (if use_previous_close b
        then b\<lparr>b_open := b_close b, b_high := b_close b, b_low := b_close b,
               b_volume := 0, count := 0\<rparr>
      else b\<lparr>b_open := None, b_high := None, b_low := None, b_close := None,
             b_volume := 0, count := 0\<rparr>)"

text \<open>\<open>build(close_time=None)\<close> returns the bar and leaves the builder reset.\<close>

definition BarBuilder_build :: "BarBuilder \<Rightarrow> datetime option \<Rightarrow> Bar \<times> BarBuilder" where
  "BarBuilder_build b close_time =
     (let ct = (case close_time of None \<Rightarrow> last_update b | Some t \<Rightarrow> Some t)
      in (\<lparr> open_price = b_open b, high_price = b_high b, low_price = b_low b,
             close_price = b_close b, volume = b_volume b, bar_timestamp = ct \<rparr>,
          BarBuilder_reset b))"

text \<open>
  The states a builder can be in: until its first update after a null reset it
  has no open price; from then on high and low are set and low does not exceed
  high.  The constructor, \<open>update\<close> and \<open>_reset\<close> keep this.
\<close>

definition builder_ok :: "BarBuilder \<Rightarrow> bool" where
  "builder_ok b =
     (case b_open b of
        None \<Rightarrow> True
      | Some _ \<Rightarrow>
          (case b_high b of
             None \<Rightarrow> False
           | Some h \<Rightarrow>
               (case b_low b of
                  None \<Rightarrow> False
                | Some l \<Rightarrow> price_value l \<le> price_value h)))"

definition supported :: "BarSpecification \<Rightarrow> bool" where
  "supported spec = (price_type spec = MID \<or> price_type spec = BID \<or> price_type spec = ASK)"

subsection \<open>\<open>BarAggregator\<close> and \<open>TickBarAggregator\<close>\<close>

text \<open>
  The registered handler is a callback of the caller's.  The model keeps what
  \<open>_handle_bar\<close> forwarded to it, in order, in the field \<open>handled\<close>.
\<close>

record BarAggregator =
  bar_type :: BarType
  builder :: BarBuilder
  handled :: "(BarType \<times> Bar) list"

definition handle_bar :: "'a BarAggregator_scheme \<Rightarrow> Bar \<Rightarrow> 'a BarAggregator_scheme" where
  "handle_bar agg bar = agg\<lparr>handled := handled agg @ [(bar_type agg, bar)]\<rparr>"

record TickBarAggregator = BarAggregator +
  agg_step :: int

definition TickBarAggregator_init :: "BarType \<Rightarrow> TickBarAggregator" where
  "TickBarAggregator_init bt =
     \<lparr> bar_type = bt,
       builder = BarBuilder_init (bar_specification bt) False,
       handled = [],
       agg_step = step (bar_specification bt) \<rparr>"

text \<open>
  \<open>TickBarAggregator.update\<close> is declared \<open>except *\<close>, so its result has an error
  side; the builder's \<open>update\<close> hands it no exception, and nothing else in its body
  raises.
\<close>

definition TickBarAggregator_update ::
  "(rat \<Rightarrow> Price) \<Rightarrow> TickBarAggregator \<Rightarrow> Tick \<Rightarrow> py_error + TickBarAggregator" where
  "TickBarAggregator_update mk agg tick =
     (let b = BarBuilder_update mk (builder agg) tick in
      if count b = agg_step agg
        then (case BarBuilder_build b None of
                (bar, b') \<Rightarrow> Inr (handle_bar (agg\<lparr>builder := b'\<rparr>) bar))
      else Inr (agg\<lparr>builder := b\<rparr>))"

text \<open>The caller's loop \<open>for tick in ticks: aggregator.update(tick)\<close>; an exception ends it.\<close>

fun TickBarAggregator_feed ::
  "(rat \<Rightarrow> Price) \<Rightarrow> TickBarAggregator \<Rightarrow> Tick list \<Rightarrow> py_error + TickBarAggregator" where
  "TickBarAggregator_feed mk agg [] = Inr agg"
| "TickBarAggregator_feed mk agg (t # ts) =
     (case TickBarAggregator_update mk agg t of
        Inl e \<Rightarrow> Inl e
      | Inr agg' \<Rightarrow> TickBarAggregator_feed mk agg' ts)"

text \<open>
  What one bar of a tick-count stream is said to be: the bar a builder that starts
  empty makes of exactly the given ticks, every update of which ran to its end
  (an update in which an exception was raised and swallowed makes the result
  \<open>Inl\<close>).
\<close>

fun BarBuilder_update_all :: "(rat \<Rightarrow> Price) \<Rightarrow> BarBuilder \<Rightarrow> Tick list \<Rightarrow> py_error + BarBuilder" where
  "BarBuilder_update_all mk b [] = Inr b"
| "BarBuilder_update_all mk b (t # ts) =
     (case BarBuilder_update_body mk b t of
        Inl e \<Rightarrow> Inl e
      | Inr b' \<Rightarrow> BarBuilder_update_all mk b' ts)"

definition bar_of_ticks :: "(rat \<Rightarrow> Price) \<Rightarrow> BarSpecification \<Rightarrow> Tick list \<Rightarrow> py_error + Bar" where
  "bar_of_ticks mk spec ts =
     (case BarBuilder_update_all mk (BarBuilder_init spec False) ts of
        Inl e \<Rightarrow> Inl e
      | Inr b \<Rightarrow> Inr (fst (BarBuilder_build b None)))"

text \<open>The stream cut into consecutive groups of \<open>n\<close> ticks; a shorter tail is dropped.\<close>

fun chunks :: "nat \<Rightarrow> nat \<Rightarrow> 'a list \<Rightarrow> 'a list list" where
  "chunks 0 n xs = []"
| "chunks (Suc k) n xs = take n xs # chunks k n (drop n xs)"

definition full_chunks :: "nat \<Rightarrow> 'a list \<Rightarrow> 'a list list" where
  "full_chunks n xs = chunks (length xs div n) n xs"

subsection \<open>The \<open>Price\<close> constructor and rounding\<close>

text \<open>
  Modelled from the spec: the \<open>Price\<close> class is not among the sources.  The spec
  derives the \<open>MID\<close> price as \<open>(bid+ask)/2\<close> and its data model gives the
  \<open>BarSpecification\<close> a price type, a structure and a step, no precision; the
  constructor called with a value alone holds that value.
\<close>

definition Price_init :: "rat \<Rightarrow> Price" where
  "Price_init x = \<lparr>price_value = x\<rparr>"

text \<open>
  The spec's words "rounded to a precision": the number rounded to \<open>p\<close> decimal
  places, a half going to the even neighbour.
\<close>

definition round_to_places :: "nat \<Rightarrow> rat \<Rightarrow> rat" where
  "round_to_places p x =
     (let s = x * 10 ^ p; f = \<lfloor>s\<rfloor>; r = s - of_int f in
      of_int (if r < 1 / 2 then f else if 1 / 2 < r then f + 1
              else if even f then f else f + 1) / 10 ^ p)"

subsection \<open>The simulation clock\<close>

text \<open>
  Modelled from the spec: the \<open>Clock\<close> class (\<open>nautilus_trader.common.clock\<close>) is
  not among the sources.  The spec's clock contract is: a repeating timer
  set with an interval and an aligned start time; \<open>advance_time(to)\<close> on a
  simulation clock makes every timer event due at or before \<open>to\<close> pending, in
  firing order; the pending events are then popped.  The timer first fires one
  interval after its start time.  A timer needs a positive interval.  The clock
  is advanced only to a time the aggregator has just compared with the next
  event time, so \<open>advance_time\<close> itself compares positions on the time line.
\<close>

record TimeEvent =
  event_timestamp :: datetime

record Clock =
  is_test_clock :: bool
  time_now :: datetime
  next_event_time :: datetime
  timer_interval :: int
  pending :: "TimeEvent list"

definition set_timer :: "Clock \<Rightarrow> int \<Rightarrow> datetime \<Rightarrow> py_error + Clock" where
  "set_timer c interval start_time =
     (if interval \<le> 0 then Inl ConditionFailed
      else Inr (c\<lparr>timer_interval := interval, next_event_time := dt_add start_time interval\<rparr>))"

definition due_count :: "Clock \<Rightarrow> datetime \<Rightarrow> nat" where
  "due_count c to_time =
     (if dt_micros (next_event_time c) \<le> dt_micros to_time
        then nat ((dt_micros to_time - dt_micros (next_event_time c)) div timer_interval c) + 1
      else 0)"

definition advance_time :: "Clock \<Rightarrow> datetime \<Rightarrow> Clock" where
  "advance_time c to_time =
     c\<lparr>time_now := to_time,
       pending := pending c @
         map (\<lambda>k. \<lparr>event_timestamp = dt_add (next_event_time c) (int k * timer_interval c)\<rparr>)
             [0 ..< due_count c to_time],
       next_event_time := dt_add (next_event_time c) (int (due_count c to_time) * timer_interval c)\<rparr>"

definition get_pending_events :: "Clock \<Rightarrow> TimeEvent list \<times> Clock" where
  "get_pending_events c = (pending c, c\<lparr>pending := []\<rparr>)"

subsection \<open>\<open>TimeBarAggregator\<close>\<close>

record TimeBarAggregator = BarAggregator +
  clock :: Clock
  interval :: int
  next_close :: datetime

text \<open>Durations in microseconds.\<close>

definition get_interval :: "BarSpecification \<Rightarrow> py_error + int" where
  "get_interval spec =
     (if bar_structure spec = SECOND then Inr (1000000 * (1 * step spec))
      else if bar_structure spec = MINUTE then Inr (60000000 * (1 * step spec))
      else if bar_structure spec = HOUR then Inr (3600000000 * (1 * step spec))
      else if bar_structure spec = DAY then Inr (86400000000 * (1 * step spec))
      else Inl ValueError)"

text \<open>
  \<open>_get_start_time\<close> builds a new \<open>datetime\<close> from the leading fields of the clock's
  time, which drops the rest.  The \<open>SECOND\<close>, \<open>MINUTE\<close> and \<open>HOUR\<close> branches pass
  \<open>tzinfo=now.tzinfo\<close>; the \<open>DAY\<close> branch passes no \<open>tzinfo\<close>, so its result is
  naive whatever the clock's time is.
\<close>

definition get_start_time :: "BarSpecification \<Rightarrow> Clock \<Rightarrow> py_error + datetime" where
  "get_start_time spec c =
     (let now = time_now c in
      if bar_structure spec = SECOND
        then Inr \<lparr>dt_micros = dt_micros now - dt_micros now mod 1000000, dt_aware = dt_aware now\<rparr>
      else if bar_structure spec = MINUTE
        then Inr \<lparr>dt_micros = dt_micros now - dt_micros now mod 60000000, dt_aware = dt_aware now\<rparr>
      else if bar_structure spec = HOUR
        then Inr \<lparr>dt_micros = dt_micros now - dt_micros now mod 3600000000, dt_aware = dt_aware now\<rparr>
      else if bar_structure spec = DAY
        then Inr \<lparr>dt_micros = dt_micros now - dt_micros now mod 86400000000, dt_aware = False\<rparr>
      else Inl ValueError)"

text \<open>
  \<open>_set_build_timer\<close> is declared \<open>cdef void\<close> with no \<open>except\<close> clause: when
  something in its body raises, the call returns with the clock as it was, no
  timer set.
\<close>

definition set_build_timer_body :: "BarSpecification \<Rightarrow> Clock \<Rightarrow> py_error + Clock" where
  "set_build_timer_body spec c =
     (case get_interval spec of
        Inl e \<Rightarrow> Inl e
      | Inr i \<Rightarrow>
          (case get_start_time spec c of
             Inl e \<Rightarrow> Inl e
           | Inr s \<Rightarrow> set_timer c i s))"

definition set_build_timer :: "BarSpecification \<Rightarrow> Clock \<Rightarrow> Clock" where
  "set_build_timer spec c = (case set_build_timer_body spec c of Inl e \<Rightarrow> c | Inr c' \<Rightarrow> c')"

text \<open>
  The constructor.  \<open>_get_interval\<close> returns an object, so its \<open>ValueError\<close> ends
  the construction; \<open>next_close\<close> is read off the clock before the timer is set.
\<close>

definition TimeBarAggregator_init :: "BarType \<Rightarrow> Clock \<Rightarrow> py_error + TimeBarAggregator" where
  "TimeBarAggregator_init bt c =
     (case get_interval (bar_specification bt) of
        Inl e \<Rightarrow> Inl e
      | Inr i \<Rightarrow>
          Inr \<lparr> bar_type = bt,
                builder = BarBuilder_init (bar_specification bt) True,
                handled = [],
                clock = set_build_timer (bar_specification bt) c,
                interval = i,
                next_close = next_event_time c \<rparr>)"

text \<open>\<open>_build_event\<close>, the timer's handler; nothing in it raises.\<close>

definition build_event :: "TimeBarAggregator \<Rightarrow> TimeEvent \<Rightarrow> TimeBarAggregator" where
  "build_event agg event =
     (case BarBuilder_build (builder agg) (Some (event_timestamp event)) of
        (bar, b') \<Rightarrow> handle_bar (agg\<lparr>builder := b'\<rparr>) bar)"

text \<open>
  \<open>TimeBarAggregator.update\<close> is declared \<open>except *\<close>.  The comparison
  \<open>next_event_time <= tick.timestamp\<close> comes after the builder's update, so the
  \<open>TypeError\<close> of an aware and a naive datetime leaves the builder updated.
\<close>

definition TimeBarAggregator_update ::
  "(rat \<Rightarrow> Price) \<Rightarrow> TimeBarAggregator \<Rightarrow> Tick \<Rightarrow> TimeBarAggregator outcome" where
  "TimeBarAggregator_update mk agg tick =
     (let agg1 = agg\<lparr>builder := BarBuilder_update mk (builder agg) tick\<rparr> in
      if is_test_clock (clock agg1)
        then (case dt_le (next_event_time (clock agg1)) (timestamp tick) of
                Inl e \<Rightarrow> Raised e agg1
              | Inr due \<Rightarrow>
                  if due
                    then (case get_pending_events (advance_time (clock agg1) (timestamp tick)) of
                            (events, c') \<Rightarrow>
                              (let agg2 = fold (\<lambda>event a. build_event a event) events
                                            (agg1\<lparr>clock := c'\<rparr>)
                               in Returned (agg2\<lparr>next_close := next_event_time (clock agg2)\<rparr>)))
                  else Returned agg1)
      else Returned agg1)"


subsection \<open>Timer intervals and the bars of a time stream\<close>









subsection \<open>What holds of a time aggregator between two updates\<close>





section \<open>Decimal numbers\<close>

text \<open>
  A finite \<open>decimal.Decimal\<close> as Python holds it: a sign, the coefficient (the digit
  string \<open>_int\<close>, kept here as the number it spells) and the exponent.  Two
  decimals of equal numeric value can differ in exponent (\<open>1.0\<close> and \<open>1.00\<close>);
  Python's \<open>==\<close> on decimals compares \<open>dec_value\<close>.  The special values (NaN,
  infinities) are outside the model.
\<close>

record Decimal =
  dec_sign :: bool
  dec_int :: nat
  dec_exp :: int

definition dec_value :: "Decimal \<Rightarrow> rat" where
  "dec_value d =
     (if dec_sign d then - 1 else 1) *
     (if 0 \<le> dec_exp d then of_nat (dec_int d) * 10 ^ nat (dec_exp d)
      else of_nat (dec_int d) / 10 ^ nat (- dec_exp d))"

text \<open>\<open>d > 0\<close>, and the truth value \<open>bool(d)\<close> (false exactly for a zero coefficient).\<close>

definition dec_positive :: "Decimal \<Rightarrow> bool" where
  "dec_positive d = (\<not> dec_sign d \<and> 0 < dec_int d)"

definition dec_bool :: "Decimal \<Rightarrow> bool" where
  "dec_bool d = (dec_int d \<noteq> 0)"

subsection \<open>Digit strings\<close>

text \<open>\<open>str(n)\<close> and \<open>int(s)\<close> for a non-negative integer and a string of ASCII digits.\<close>

definition is_digit :: "char \<Rightarrow> bool" where
  "is_digit c = (48 \<le> (of_char c :: nat) \<and> (of_char c :: nat) \<le> 57)"

definition digit_char :: "nat \<Rightarrow> char" where
  "digit_char n = char_of (48 + n)"

definition digit_val :: "char \<Rightarrow> nat" where
  "digit_val c = of_char c - 48"

function digits_of_nat :: "nat \<Rightarrow> string" where
  "digits_of_nat n =
     (if n < 10 then [digit_char n] else digits_of_nat (n div 10) @ [digit_char (n mod 10)])"
  by pat_completeness auto
termination
  by (relation "measure (\<lambda>n. n)") auto

definition nat_of_digits :: "string \<Rightarrow> nat" where
  "nat_of_digits s = foldl (\<lambda>a c. 10 * a + digit_val c) 0 s"

text \<open>\<open>"%+d" % i\<close>: a sign, always, and the digits.\<close>

definition signed_str :: "int \<Rightarrow> string" where
  "signed_str i = (if i < 0 then ''-'' else ''+'') @ digits_of_nat (nat (abs i))"

subsection \<open>\<open>str(d)\<close>\<close>

text \<open>
  \<open>Decimal.__str__\<close>: plain notation when the exponent is not positive and at most
  five zeros would follow the decimal point, scientific notation (one digit
  before the point, then \<open>E\<close> and the signed exponent) otherwise.
\<close>

definition Decimal_str :: "Decimal \<Rightarrow> string" where
  "Decimal_str d =
     (let sign = (if dec_sign d then ''-'' else []);
          ds = digits_of_nat (dec_int d);
          leftdigits = dec_exp d + int (length ds);
          dotplace = (if dec_exp d \<le> 0 \<and> leftdigits > - 6 then leftdigits else 1);
          intpart = (if dotplace \<le> 0 then ''0''
                     else if dotplace \<ge> int (length ds)
                       then ds @ replicate (nat (dotplace - int (length ds))) CHR ''0''
                     else take (nat dotplace) ds);
          fracpart = (if dotplace \<le> 0 then ''.'' @ replicate (nat (- dotplace)) CHR ''0'' @ ds
                      else if dotplace \<ge> int (length ds) then []
                      else ''.'' @ drop (nat dotplace) ds);
          exp = (if leftdigits = dotplace then []
                 else ''E'' @ signed_str (leftdigits - dotplace))
      in sign @ intpart @ fracpart @ exp)"

subsection \<open>\<open>Decimal(s)\<close>\<close>

text \<open>
  The constructor from a string, \<open>_parser(value.strip().replace("_", ""))\<close>: it
  strips surrounding whitespace, drops every underscore, and then accepts an
  optional sign, digits with an optional decimal point (at least one digit in
  all), and an optional exponent \<open>E\<close> or \<open>e\<close> with an optional sign and at least
  one digit; anything else raises \<open>InvalidOperation\<close>.  The coefficient is \<open>int\<close>
  of the digits, the exponent is the written exponent less the number of
  fraction digits.  The special values are outside the model, so the strings
  that spell them (\<open>Inf\<close>, \<open>NaN\<close>) are refused here; and the model's exponents
  are unbounded, where Python refuses an exponent beyond its limits near
  \<open>10^18\<close>.  No string that \<open>str\<close> or \<open>format\<close> writes for a decimal of the
  model is touched by either.
\<close>

text \<open>Python's whitespace among the 8-bit characters.\<close>

definition is_space :: "char \<Rightarrow> bool" where
  "is_space c =
     (let n = (of_char c :: nat)
      in (9 \<le> n \<and> n \<le> 13) \<or> (28 \<le> n \<and> n \<le> 32) \<or> n = 133 \<or> n = 160)"

definition str_strip :: "string \<Rightarrow> string" where
  "str_strip s = rev (dropWhile is_space (rev (dropWhile is_space s)))"

definition plain_char :: "char \<Rightarrow> bool" where
  "plain_char c = (\<not> is_space c \<and> c \<noteq> CHR ''_'')"

definition parse_exponent :: "string \<Rightarrow> int option" where
  "parse_exponent s =
     (case s of
        [] \<Rightarrow> Some 0
      | c # r \<Rightarrow>
          if c = CHR ''E'' \<or> c = CHR ''e''
            then (let (neg, ds) =
                        (case r of
                           [] \<Rightarrow> (False, r)
                         | x # r' \<Rightarrow>
                             if x = CHR ''-'' then (True, r')
                             else if x = CHR ''+'' then (False, r')
                             else (False, r))
                  in if ds \<noteq> [] \<and> list_all is_digit ds
                       then Some (if neg then - int (nat_of_digits ds) else int (nat_of_digits ds))
                     else None)
          else None)"

definition Decimal_parse :: "string \<Rightarrow> py_error + Decimal" where
  "Decimal_parse s =
     (let (neg, r) =
            (case s of
               [] \<Rightarrow> (False, s)
             | c # r' \<Rightarrow>
                 if c = CHR ''-'' then (True, r')
                 else if c = CHR ''+'' then (False, r')
                 else (False, s));
          intpart = takeWhile is_digit r;
          r1 = dropWhile is_digit r;
          (fracpart, r2) =
            (case r1 of
               [] \<Rightarrow> ([], r1)
             | c # t \<Rightarrow>
                 if c = CHR ''.'' then (takeWhile is_digit t, dropWhile is_digit t)
                 else ([], r1))
      in if intpart = [] \<and> fracpart = [] then Inl InvalidOperation
         else (case parse_exponent r2 of
                 None \<Rightarrow> Inl InvalidOperation
               | Some e \<Rightarrow>
                   Inr \<lparr>dec_sign = neg,
                        dec_int = nat_of_digits (intpart @ fracpart),
                        dec_exp = e - int (length fracpart)\<rparr>))"

definition Decimal_of_str :: "string \<Rightarrow> py_error + Decimal" where
  "Decimal_of_str s = Decimal_parse (filter (\<lambda>c. c \<noteq> CHR ''_'') (str_strip s))"

subsection \<open>\<open>f"{d:.5f}"\<close>\<close>

text \<open>
  \<open>Decimal.__format__\<close> with a fixed-point specifier first rescales the number to
  the asked number of places, rounding half to even (the default context), and
  then writes it in plain notation.  \<open>round_half_even c m\<close> is \<open>c / m\<close> rounded
  that way.
\<close>

definition round_half_even :: "nat \<Rightarrow> nat \<Rightarrow> nat" where
  "round_half_even c m =
     (let q = c div m; r = c mod m
      in if 2 * r > m \<or> (2 * r = m \<and> odd q) then q + 1 else q)"

definition Decimal_rescale :: "Decimal \<Rightarrow> int \<Rightarrow> Decimal" where
  "Decimal_rescale d e =
     (if dec_int d = 0 then \<lparr>dec_sign = dec_sign d, dec_int = 0, dec_exp = e\<rparr>
      else if dec_exp d \<ge> e
        then \<lparr>dec_sign = dec_sign d, dec_int = dec_int d * 10 ^ nat (dec_exp d - e), dec_exp = e\<rparr>
      else \<lparr>dec_sign = dec_sign d,
            dec_int = round_half_even (dec_int d) (10 ^ nat (e - dec_exp d)),
            dec_exp = e\<rparr>)"

definition Decimal_format_f :: "nat \<Rightarrow> Decimal \<Rightarrow> string" where
  "Decimal_format_f places d =
     (let r = Decimal_rescale d (- int places);
          ds = digits_of_nat (dec_int r);
          dotplace = dec_exp r + int (length ds);
          intpart = (if dotplace < 0 then ''0''
                     else if take (nat dotplace) ds = [] then ''0''
                     else take (nat dotplace) ds);
          fracpart = (if dotplace < 0 then replicate (nat (- dotplace)) CHR ''0'' @ ds
                      else drop (nat dotplace) ds)
      in (if dec_sign r then ''-'' else []) @ intpart @
         (if fracpart \<noteq> [] then ''.'' @ fracpart else []))"

section \<open>Position (\<open>inv_trader/model/position.pyx\<close>)\<close>

subsection \<open>Data\<close>

text \<open>
  The order events and enums come from \<open>inv_trader.model\<close> modules that are not
  among the sources.  The model keeps the two fill events with the
  attributes \<open>apply\<close> reads, and a few of the other order events.
\<close>

datatype OrderSide = BUY | SELL

datatype MarketPosition = MarketPosition_FLAT | MarketPosition_LONG | MarketPosition_SHORT

record Fill =
  order_side :: OrderSide
  filled_quantity :: int
  average_price :: Decimal
  execution_time :: datetime
  execution_id :: string
  execution_ticket :: string

datatype OrderEvent =
    OrderFilled Fill
  | OrderPartiallyFilled Fill
  | OrderSubmitted
  | OrderAccepted
  | OrderRejected
  | OrderWorking
  | OrderCancelled
  | OrderExpired

fun fill_of :: "OrderEvent \<Rightarrow> Fill option" where
  "fill_of (OrderFilled f) = Some f"
| "fill_of (OrderPartiallyFilled f) = Some f"
| "fill_of _ = None"

text \<open>
  \<open>_relative_quantity\<close> and \<open>_peak_quantity\<close> are declared \<open>cdef int\<close>: 32-bit
  signed, kept as integers with the wrap-around written out.
\<close>

record Position =
  p_symbol :: string
  p_id :: string
  p_timestamp :: datetime
  relative_quantity :: int
  peak_quantity :: int
  entry_time :: "datetime option"
  exit_time :: "datetime option"
  average_entry_price :: "Decimal option"
  average_exit_price :: "Decimal option"
  events :: "OrderEvent list"
  execution_ids :: "string list"
  execution_tickets :: "string list"

definition wrap32 :: "int \<Rightarrow> int" where
  "wrap32 x = (x + 2147483648) mod 4294967296 - 2147483648"

definition in_c_int :: "int \<Rightarrow> bool" where
  "in_c_int x = (- 2147483648 \<le> x \<and> x < 2147483648)"

definition c_abs :: "int \<Rightarrow> int" where
  "c_abs x = wrap32 (abs x)"

subsection \<open>Operations\<close>

definition Position_init :: "string \<Rightarrow> string \<Rightarrow> datetime \<Rightarrow> Position" where
  "Position_init symb position_id ts =
     \<lparr> p_symbol = symb, p_id = position_id, p_timestamp = ts,
       relative_quantity = 0, peak_quantity = 0,
       entry_time = None, exit_time = None,
       average_entry_price = None, average_exit_price = None,
       events = [], execution_ids = [], execution_tickets = [] \<rparr>"

definition Position_quantity :: "Position \<Rightarrow> int" where
  "Position_quantity p = c_abs (relative_quantity p)"

definition is_entered :: "Position \<Rightarrow> bool" where
  "is_entered p = (entry_time p \<noteq> None)"

definition is_exited :: "Position \<Rightarrow> bool" where
  "is_exited p = (exit_time p \<noteq> None)"

definition calculate_market_position :: "Position \<Rightarrow> MarketPosition" where
  "calculate_market_position p =
     (if relative_quantity p > 0 then MarketPosition_LONG
      else if relative_quantity p < 0 then MarketPosition_SHORT
      else MarketPosition_FLAT)"

text \<open>
  The body of \<open>_update_position\<close>.  \<open>Precondition.positive\<close> (declared in a module
  that is not among the sources) raises unless its argument is greater than
  zero.
\<close>

definition update_position_body ::
  "Position \<Rightarrow> OrderSide \<Rightarrow> int \<Rightarrow> Decimal \<Rightarrow> datetime \<Rightarrow> Position outcome" where
  "update_position_body p side qty price event_time =
     (if \<not> 0 < qty then Raised ConditionFailed p
      else if \<not> dec_positive price then Raised ConditionFailed p
      else
        (let p1 = (case side of
                     BUY \<Rightarrow> p\<lparr>relative_quantity := wrap32 (relative_quantity p + qty)\<rparr>
                   | SELL \<Rightarrow> p\<lparr>relative_quantity := wrap32 (relative_quantity p - qty)\<rparr>);
             p2 = (if c_abs (relative_quantity p1) > peak_quantity p1
                     then p1\<lparr>peak_quantity := relative_quantity p1\<rparr>
                   else p1);
             p3 = (if entry_time p2 = None then p2\<lparr>entry_time := Some event_time\<rparr> else p2);
             p4 = p3\<lparr>average_entry_price := Some price\<rparr>
         in Returned
              (if is_entered p4 \<and> relative_quantity p4 = 0
                 then p4\<lparr>exit_time := Some event_time, average_exit_price := Some price\<rparr>
               else p4)))"

text \<open>
  \<open>_update_position\<close> as it is called.  It is declared \<open>cdef void\<close> with no
  \<open>except\<close> clause, so a failed precondition never reaches \<open>apply\<close>: the call
  returns with the position as the raise left it, and \<open>apply\<close> goes on.
\<close>

definition update_position ::
  "Position \<Rightarrow> OrderSide \<Rightarrow> int \<Rightarrow> Decimal \<Rightarrow> datetime \<Rightarrow> Position" where
  "update_position p side qty price event_time =
     outcome_state (update_position_body p side qty price event_time)"

text \<open>
  The statements shared by the two fill branches of \<open>apply\<close>.  Passing
  \<open>event.filled_quantity\<close> for the \<open>int quantity\<close> parameter converts it to a C
  int in \<open>apply\<close>, before the call; out of range that raises \<open>OverflowError\<close>
  there.
\<close>

definition apply_fill :: "Position \<Rightarrow> Fill \<Rightarrow> Position outcome" where
  "apply_fill p f =
     (if \<not> in_c_int (filled_quantity f) then Raised OverflowError p
      else
        (let p' = update_position p (order_side f) (filled_quantity f) (average_price f)
                    (execution_time f)
         in Returned (p'\<lparr>execution_ids := execution_ids p' @ [execution_id f],
                         execution_tickets := execution_tickets p' @ [execution_ticket f]\<rparr>)))"

text \<open>The body of \<open>apply\<close>: the event is appended before its class is looked at.\<close>

definition Position_apply_body :: "Position \<Rightarrow> OrderEvent \<Rightarrow> Position outcome" where
  "Position_apply_body p event =
     (let p0 = p\<lparr>events := events p @ [event]\<rparr> in
      case event of
        OrderFilled f \<Rightarrow> apply_fill p0 f
      | OrderPartiallyFilled f \<Rightarrow> apply_fill p0 f
      | _ \<Rightarrow> Raised TypeError p0)"

text \<open>
  \<open>apply\<close> as it is called.  It is declared \<open>cpdef void apply(self, object event)\<close>
  with no \<open>except\<close> clause, so the \<open>TypeError\<close> and the \<open>OverflowError\<close> raised in
  its body never reach the caller: the call returns normally, with the position
  as the raise left it.
\<close>

definition Position_apply :: "Position \<Rightarrow> OrderEvent \<Rightarrow> Position" where
  "Position_apply p event = outcome_state (Position_apply_body p event)"

text \<open>The caller's loop over a list of events.\<close>

fun Position_apply_all :: "Position \<Rightarrow> OrderEvent list \<Rightarrow> Position" where
  "Position_apply_all p [] = p"
| "Position_apply_all p (e # es) = Position_apply_all (Position_apply p e) es"

text \<open>
  A fill the position accepts: a quantity that is positive and fits a C int, at
  a positive price.
\<close>

definition valid_fill :: "Fill \<Rightarrow> bool" where
  "valid_fill f = (0 < filled_quantity f \<and> in_c_int (filled_quantity f) \<and> dec_positive (average_price f))"

text \<open>
  Fills that all increase exposure in the opening direction of a new position:
  valid fills on one and the same order side, whose quantities together fit the
  C int that holds the net quantity.
\<close>

definition fill_on_side :: "OrderSide \<Rightarrow> OrderEvent \<Rightarrow> bool" where
  "fill_on_side s ev =
     (case fill_of ev of None \<Rightarrow> False | Some f \<Rightarrow> valid_fill f \<and> order_side f = s)"

definition event_quantity :: "OrderEvent \<Rightarrow> int" where
  "event_quantity ev = (case fill_of ev of None \<Rightarrow> 0 | Some f \<Rightarrow> filled_quantity f)"

definition opening_fills :: "OrderSide \<Rightarrow> OrderEvent list \<Rightarrow> bool" where
  "opening_fills s evs =
     (list_all (fill_on_side s) evs \<and> in_c_int (sum_list (map event_quantity evs)))"

definition signed_quantity :: "OrderSide \<Rightarrow> int \<Rightarrow> int" where
  "signed_quantity s q = (case s of BUY \<Rightarrow> q | SELL \<Rightarrow> - q)"

text \<open>
  The spec's average open price, in the spec's words: the quantity-weighted
  running average of the prices of the fills applied so far.
\<close>

definition weighted_average_price :: "Fill list \<Rightarrow> rat" where
  "weighted_average_price fs =
     (\<Sum>f \<leftarrow> fs. of_int (filled_quantity f) * dec_value (average_price f)) /
     (\<Sum>f \<leftarrow> fs. of_int (filled_quantity f))"

text \<open>The spec's peak quantity: the largest \<open>abs(net_qty)\<close> among the given net quantities.\<close>

definition peak_of :: "int list \<Rightarrow> int" where
  "peak_of nets = fold (\<lambda>n m. max m (abs n)) nets 0"

section \<open>Position events (\<open>src/unnamed/part_000\<close>)\<close>

subsection \<open>Data\<close>

datatype PositionSide = FLAT | LONG | SHORT

text \<open>
  The flat dictionary an event is written to and read from maps string keys to
  strings, integers or \<open>None\<close>.
\<close>

datatype pyval = PStr string | PInt int | PNone

type_synonym pydict = "string \<rightharpoonup> pyval"

text \<open>
  The identifier, quantity, price, currency, money and UUID classes and the two
  enum parsers are declared in modules that are not among the sources.
  Their types are type parameters, and the constructors and string conversions
  the events call are the fields of a record given to every function that
  calls them.  A constructor or \<open>from_str\<close> may raise.
\<close>

record ('tid, 'sid, 'iid, 'pid, 'aid, 'oid, 'qty, 'px, 'cur, 'mon, 'uid) codecs =
  TraderId_init :: "string \<Rightarrow> py_error + 'tid"
  TraderId_value :: "'tid \<Rightarrow> string"
  StrategyId_init :: "string \<Rightarrow> py_error + 'sid"
  StrategyId_value :: "'sid \<Rightarrow> string"
  InstrumentId_from_str :: "string \<Rightarrow> py_error + 'iid"
  InstrumentId_value :: "'iid \<Rightarrow> string"
  PositionId_init :: "string \<Rightarrow> py_error + 'pid"
  PositionId_value :: "'pid \<Rightarrow> string"
  AccountId_from_str :: "string \<Rightarrow> py_error + 'aid"
  AccountId_value :: "'aid \<Rightarrow> string"
  ClientOrderId_init :: "string \<Rightarrow> py_error + 'oid"
  ClientOrderId_value :: "'oid \<Rightarrow> string"
  OrderSide_from_str :: "string \<Rightarrow> py_error + OrderSide"
  OrderSide_to_str :: "OrderSide \<Rightarrow> string"
  PositionSide_from_str :: "string \<Rightarrow> py_error + PositionSide"
  PositionSide_to_str :: "PositionSide \<Rightarrow> string"
  Quantity_from_str :: "string \<Rightarrow> py_error + 'qty"
  Quantity_str :: "'qty \<Rightarrow> string"
  Price_from_str :: "string \<Rightarrow> py_error + 'px"
  Price_str :: "'px \<Rightarrow> string"
  Currency_from_str :: "string \<Rightarrow> py_error + 'cur"
  Currency_code :: "'cur \<Rightarrow> string"
  Money_from_str :: "string \<Rightarrow> py_error + 'mon"
  Money_to_str :: "'mon \<Rightarrow> string"
  UUID_from_str :: "string \<Rightarrow> py_error + 'uid"
  UUID_value :: "'uid \<Rightarrow> string"

text \<open>
  One record for the three event classes, which share every attribute; the
  class of the object is the field \<open>event_class\<close>.  \<open>event_id\<close> is the attribute
  \<open>id\<close> of the \<open>Event\<close> base class.  The \<open>int64_t\<close> attributes are 64-bit signed
  words.
\<close>

datatype event_class = PositionOpened | PositionChanged | PositionClosed

fun class_name :: "event_class \<Rightarrow> string" where
  "class_name PositionOpened = ''PositionOpened''"
| "class_name PositionChanged = ''PositionChanged''"
| "class_name PositionClosed = ''PositionClosed''"

record ('tid, 'sid, 'iid, 'pid, 'aid, 'oid, 'qty, 'px, 'cur, 'mon, 'uid) PositionEvent =
  event_class :: event_class
  trader_id :: 'tid
  strategy_id :: 'sid
  instrument_id :: 'iid
  position_id :: 'pid
  account_id :: 'aid
  from_order :: 'oid
  entry :: OrderSide
  side :: PositionSide
  net_qty :: Decimal
  quantity :: 'qty
  peak_qty :: 'qty
  last_qty :: 'qty
  last_px :: 'px
  currency :: 'cur
  avg_px_open :: Decimal
  avg_px_close :: "Decimal option"
  realized_points :: Decimal
  realized_return :: Decimal
  realized_pnl :: 'mon
  ts_opened_ns :: "64 word"
  ts_closed_ns :: "64 word"
  duration_ns :: "64 word"
  event_id :: 'uid
  timestamp_ns :: "64 word"

text \<open>
  Of the \<open>Position\<close> (\<open>nautilus_trader.model.position\<close>) and the \<open>OrderFilled\<close> event
  that \<open>create\<close> is given, the attributes it reads.
\<close>

record ('tid, 'sid, 'iid, 'pid, 'aid, 'oid, 'qty, 'cur, 'mon) ModelPosition =
  pos_trader_id :: 'tid
  pos_strategy_id :: 'sid
  pos_instrument_id :: 'iid
  pos_id :: 'pid
  pos_account_id :: 'aid
  pos_from_order :: 'oid
  pos_entry :: OrderSide
  pos_side :: PositionSide
  pos_net_qty :: Decimal
  pos_quantity :: 'qty
  pos_peak_qty :: 'qty
  pos_quote_currency :: 'cur
  pos_avg_px_open :: Decimal
  pos_avg_px_close :: "Decimal option"
  pos_realized_points :: Decimal
  pos_realized_return :: Decimal
  pos_realized_pnl :: 'mon
  pos_ts_opened_ns :: "64 word"
  pos_ts_closed_ns :: "64 word"
  pos_duration_ns :: "64 word"

record ('qty, 'px) FillEvent =
  fill_last_qty :: 'qty
  fill_last_px :: 'px

subsection \<open>Reading a dictionary\<close>

definition bind_e :: "py_error + 'a \<Rightarrow> ('a \<Rightarrow> py_error + 'b) \<Rightarrow> py_error + 'b" where
  "bind_e x f = (case x of Inl e \<Rightarrow> Inl e | Inr v \<Rightarrow> f v)"

text \<open>\<open>values[k]\<close>, and the same where the callee takes a \<open>str\<close>.\<close>

definition dict_get :: "pydict \<Rightarrow> string \<Rightarrow> py_error + pyval" where
  "dict_get values k = (case values k of None \<Rightarrow> Inl KeyError | Some v \<Rightarrow> Inr v)"

definition as_str :: "pyval \<Rightarrow> py_error + string" where
  "as_str v = (case v of PStr s \<Rightarrow> Inr s | PInt i \<Rightarrow> Inl TypeError | PNone \<Rightarrow> Inl TypeError)"

definition dict_str :: "pydict \<Rightarrow> string \<Rightarrow> py_error + string" where
  "dict_str values k = bind_e (dict_get values k) as_str"

text \<open>A Python object passed for an \<open>int64_t\<close> parameter.\<close>

definition as_int64 :: "pyval \<Rightarrow> py_error + 64 word" where
  "as_int64 v =
     (case v of
        PInt i \<Rightarrow> if - 9223372036854775808 \<le> i \<and> i < 9223372036854775808
                    then Inr (word_of_int i) else Inl OverflowError
      | PStr s \<Rightarrow> Inl TypeError
      | PNone \<Rightarrow> Inl TypeError)"

text \<open>\<open>Decimal(v)\<close> for a string or an integer; \<open>Decimal(None)\<close> raises \<open>TypeError\<close>.\<close>

definition Decimal_new :: "pyval \<Rightarrow> py_error + Decimal" where
  "Decimal_new v =
     (case v of
        PStr s \<Rightarrow> Decimal_of_str s
      | PInt i \<Rightarrow> Inr \<lparr>dec_sign = i < 0, dec_int = nat (abs i), dec_exp = 0\<rparr>
      | PNone \<Rightarrow> Inl TypeError)"

text \<open>The truth value of a dictionary value, as \<open>if v\<close> tests it.\<close>

definition truthy :: "pyval \<Rightarrow> bool" where
  "truthy v = (case v of PStr s \<Rightarrow> s \<noteq> [] | PInt i \<Rightarrow> i \<noteq> 0 | PNone \<Rightarrow> False)"

subsection \<open>Constructors\<close>

text \<open>
  \<open>PositionEvent.__init__\<close> stores its arguments.  Each subclass constructor
  first asserts that the side fits the class and then passes its arguments on;
  \<open>PositionOpened\<close> passes no average close price, and it and \<open>PositionChanged\<close>
  pass 0 for the closing time and the duration.
\<close>

definition PositionEvent_init where
  "PositionEvent_init cls trader_id' strategy_id' instrument_id' position_id' account_id' from_order' entry' side'
       net_qty' quantity' peak_qty' last_qty' last_px' currency'
       avg_px_open' avg_px_close' realized_points' realized_return' realized_pnl'
       ts_opened_ns' ts_closed_ns' duration_ns' event_id' timestamp_ns' =
     \<lparr>event_class = cls, trader_id = trader_id', strategy_id = strategy_id',
               instrument_id = instrument_id', position_id = position_id',
               account_id = account_id', from_order = from_order', entry = entry',
               side = side', net_qty = net_qty', quantity = quantity',
               peak_qty = peak_qty', last_qty = last_qty', last_px = last_px',
               currency = currency', avg_px_open = avg_px_open',
               avg_px_close = avg_px_close', realized_points = realized_points',
               realized_return = realized_return', realized_pnl = realized_pnl',
               ts_opened_ns = ts_opened_ns', ts_closed_ns = ts_closed_ns',
               duration_ns = duration_ns', event_id = event_id',
               timestamp_ns = timestamp_ns'\<rparr>"

definition PositionOpened_init where
  "PositionOpened_init trader_id' strategy_id' instrument_id' position_id' account_id' from_order' entry' side'
       net_qty' quantity' peak_qty' last_qty' last_px' currency'
       avg_px_open' realized_points' realized_return' realized_pnl'
       ts_opened_ns' event_id' timestamp_ns' =
     (if side' = FLAT then Inl AssertionError
      else Inr (PositionEvent_init PositionOpened trader_id' strategy_id' instrument_id' position_id' account_id' from_order' entry' side'
               net_qty' quantity' peak_qty' last_qty' last_px' currency'
               avg_px_open' None realized_points' realized_return' realized_pnl'
               ts_opened_ns' 0 0 event_id' timestamp_ns'))"

definition PositionChanged_init where
  "PositionChanged_init trader_id' strategy_id' instrument_id' position_id' account_id' from_order' entry' side'
       net_qty' quantity' peak_qty' last_qty' last_px' currency'
       avg_px_open' avg_px_close' realized_points' realized_return' realized_pnl'
       ts_opened_ns' event_id' timestamp_ns' =
     (if side' = FLAT then Inl AssertionError
      else Inr (PositionEvent_init PositionChanged trader_id' strategy_id' instrument_id' position_id' account_id' from_order' entry' side'
               net_qty' quantity' peak_qty' last_qty' last_px' currency'
               avg_px_open' avg_px_close' realized_points' realized_return' realized_pnl'
               ts_opened_ns' 0 0 event_id' timestamp_ns'))"

text \<open>
  \<open>PositionClosed.__init__\<close> declares \<open>avg_px_close not None\<close>: \<open>None\<close> is refused with
  \<open>TypeError\<close> when the arguments are bound, before the body runs.
\<close>

definition PositionClosed_init where
  "PositionClosed_init trader_id' strategy_id' instrument_id' position_id' account_id' from_order' entry' side'
       net_qty' quantity' peak_qty' last_qty' last_px' currency'
       avg_px_open' avg_px_close' realized_points' realized_return' realized_pnl'
       ts_opened_ns' ts_closed_ns' duration_ns' event_id' timestamp_ns' =
     (case avg_px_close' of
        None \<Rightarrow> Inl TypeError
      | Some d \<Rightarrow>
          if side' \<noteq> FLAT then Inl AssertionError
          else Inr (PositionEvent_init PositionClosed trader_id' strategy_id' instrument_id' position_id' account_id' from_order' entry' side'
                    net_qty' quantity' peak_qty' last_qty' last_px' currency'
                    avg_px_open' (Some d) realized_points' realized_return' realized_pnl'
                    ts_opened_ns' ts_closed_ns' duration_ns' event_id' timestamp_ns'))"

subsection \<open>\<open>create\<close>\<close>

text \<open>
  \<open>create_c\<close> checks its three object arguments with \<open>Condition.not_none\<close> and
  copies the attributes of the position and the fill.
\<close>

definition PositionOpened_create_c where
  "PositionOpened_create_c position_opt fill_opt event_id_opt timestamp_ns' =
     (case position_opt of
        None \<Rightarrow> Inl ConditionFailed
      | Some position \<Rightarrow>
          (case fill_opt of
             None \<Rightarrow> Inl ConditionFailed
           | Some fill \<Rightarrow>
               (case event_id_opt of
                  None \<Rightarrow> Inl ConditionFailed
                | Some uuid \<Rightarrow>
                    PositionOpened_init
                       (pos_trader_id position)
                       (pos_strategy_id position)
                       (pos_instrument_id position)
                       (pos_id position)
                       (pos_account_id position)
                       (pos_from_order position)
                       (pos_entry position)
                       (pos_side position)
                       (pos_net_qty position)
                       (pos_quantity position)
                       (pos_peak_qty position)
                       (fill_last_qty fill)
                       (fill_last_px fill)
                       (pos_quote_currency position)
                       (pos_avg_px_open position)
                       (pos_realized_points position)
                       (pos_realized_return position)
                       (pos_realized_pnl position)
                       (pos_ts_opened_ns position)
                       uuid
                       timestamp_ns')))"

definition PositionChanged_create_c where
  "PositionChanged_create_c position_opt fill_opt event_id_opt timestamp_ns' =
     (case position_opt of
        None \<Rightarrow> Inl ConditionFailed
      | Some position \<Rightarrow>
          (case fill_opt of
             None \<Rightarrow> Inl ConditionFailed
           | Some fill \<Rightarrow>
               (case event_id_opt of
                  None \<Rightarrow> Inl ConditionFailed
                | Some uuid \<Rightarrow>
                    PositionChanged_init
                       (pos_trader_id position)
                       (pos_strategy_id position)
                       (pos_instrument_id position)
                       (pos_id position)
                       (pos_account_id position)
                       (pos_from_order position)
                       (pos_entry position)
                       (pos_side position)
                       (pos_net_qty position)
                       (pos_quantity position)
                       (pos_peak_qty position)
                       (fill_last_qty fill)
                       (fill_last_px fill)
                       (pos_quote_currency position)
                       (pos_avg_px_open position)
                       (pos_avg_px_close position)
                       (pos_realized_points position)
                       (pos_realized_return position)
                       (pos_realized_pnl position)
                       (pos_ts_opened_ns position)
                       uuid
                       timestamp_ns')))"

definition PositionClosed_create_c where
  "PositionClosed_create_c position_opt fill_opt event_id_opt timestamp_ns' =
     (case position_opt of
        None \<Rightarrow> Inl ConditionFailed
      | Some position \<Rightarrow>
          (case fill_opt of
             None \<Rightarrow> Inl ConditionFailed
           | Some fill \<Rightarrow>
               (case event_id_opt of
                  None \<Rightarrow> Inl ConditionFailed
                | Some uuid \<Rightarrow>
                    PositionClosed_init
                       (pos_trader_id position)
                       (pos_strategy_id position)
                       (pos_instrument_id position)
                       (pos_id position)
                       (pos_account_id position)
                       (pos_from_order position)
                       (pos_entry position)
                       (pos_side position)
                       (pos_net_qty position)
                       (pos_quantity position)
                       (pos_peak_qty position)
                       (fill_last_qty fill)
                       (fill_last_px fill)
                       (pos_quote_currency position)
                       (pos_avg_px_open position)
                       (pos_avg_px_close position)
                       (pos_realized_points position)
                       (pos_realized_return position)
                       (pos_realized_pnl position)
                       (pos_ts_opened_ns position)
                       (pos_ts_closed_ns position)
                       (pos_duration_ns position)
                       uuid
                       timestamp_ns')))"

subsection \<open>\<open>to_dict\<close>\<close>

text \<open>
  The three \<open>to_dict_c\<close> have the same body.  The average close price is written
  as its \<open>str\<close> if it is truthy and as \<open>None\<close> otherwise; the realized return is
  written with the format \<open>.5f\<close>.
\<close>

definition position_event_dict where
  "position_event_dict cs obj =
     map_of
       [(''type'', PStr (class_name (event_class obj))),
        (''trader_id'', PStr (TraderId_value cs (trader_id obj))),
        (''strategy_id'', PStr (StrategyId_value cs (strategy_id obj))),
        (''instrument_id'', PStr (InstrumentId_value cs (instrument_id obj))),
        (''position_id'', PStr (PositionId_value cs (position_id obj))),
        (''account_id'', PStr (AccountId_value cs (account_id obj))),
        (''from_order'', PStr (ClientOrderId_value cs (from_order obj))),
        (''entry'', PStr (OrderSide_to_str cs (entry obj))),
        (''side'', PStr (PositionSide_to_str cs (side obj))),
        (''net_qty'', PStr (Decimal_str (net_qty obj))),
        (''quantity'', PStr (Quantity_str cs (quantity obj))),
        (''peak_qty'', PStr (Quantity_str cs (peak_qty obj))),
        (''last_qty'', PStr (Quantity_str cs (last_qty obj))),
        (''last_px'', PStr (Price_str cs (last_px obj))),
        (''currency'', PStr (Currency_code cs (currency obj))),
        (''avg_px_open'', PStr (Decimal_str (avg_px_open obj))),
        (''avg_px_close'',
           (case avg_px_close obj of
              None \<Rightarrow> PNone
            | Some d \<Rightarrow> if dec_bool d then PStr (Decimal_str d) else PNone)),
        (''realized_points'', PStr (Decimal_str (realized_points obj))),
        (''realized_return'', PStr (Decimal_format_f 5 (realized_return obj))),
        (''realized_pnl'', PStr (Money_to_str cs (realized_pnl obj))),
        (''ts_opened_ns'', PInt (sint (ts_opened_ns obj))),
        (''ts_closed_ns'', PInt (sint (ts_closed_ns obj))),
        (''duration_ns'', PInt (sint (duration_ns obj))),
        (''event_id'', PStr (UUID_value cs (event_id obj))),
        (''timestamp_ns'', PInt (sint (timestamp_ns obj)))]"

definition PositionOpened_to_dict_c where
  "PositionOpened_to_dict_c cs obj = position_event_dict cs obj"

definition PositionChanged_to_dict_c where
  "PositionChanged_to_dict_c cs obj = position_event_dict cs obj"

definition PositionClosed_to_dict_c where
  "PositionClosed_to_dict_c cs obj = position_event_dict cs obj"

subsection \<open>\<open>from_dict\<close>\<close>

text \<open>
  The keyword arguments are evaluated in the order written, so the first
  failing lookup or parse is the exception raised.  The values for the
  \<open>int64_t\<close> parameters are only looked up there; they are converted when the
  constructor is called, after every argument has been evaluated.
\<close>

definition PositionOpened_from_dict_c where
  "PositionOpened_from_dict_c cs values =
     bind_e (bind_e (dict_str values ''trader_id'') (TraderId_init cs)) (\<lambda>trader_id'.
     bind_e (bind_e (dict_str values ''strategy_id'') (StrategyId_init cs)) (\<lambda>strategy_id'.
     bind_e (bind_e (dict_str values ''instrument_id'') (InstrumentId_from_str cs)) (\<lambda>instrument_id'.
     bind_e (bind_e (dict_str values ''position_id'') (PositionId_init cs)) (\<lambda>position_id'.
     bind_e (bind_e (dict_str values ''account_id'') (AccountId_from_str cs)) (\<lambda>account_id'.
     bind_e (bind_e (dict_str values ''from_order'') (ClientOrderId_init cs)) (\<lambda>from_order'.
     bind_e (bind_e (dict_str values ''entry'') (OrderSide_from_str cs)) (\<lambda>entry'.
     bind_e (bind_e (dict_str values ''side'') (PositionSide_from_str cs)) (\<lambda>side'.
     bind_e (bind_e (dict_get values ''net_qty'') Decimal_new) (\<lambda>net_qty'.
     bind_e (bind_e (dict_str values ''quantity'') (Quantity_from_str cs)) (\<lambda>quantity'.
     bind_e (bind_e (dict_str values ''peak_qty'') (Quantity_from_str cs)) (\<lambda>peak_qty'.
     bind_e (bind_e (dict_str values ''last_qty'') (Quantity_from_str cs)) (\<lambda>last_qty'.
     bind_e (bind_e (dict_str values ''last_px'') (Price_from_str cs)) (\<lambda>last_px'.
     bind_e (bind_e (dict_str values ''currency'') (Currency_from_str cs)) (\<lambda>currency'.
     bind_e (bind_e (dict_get values ''avg_px_open'') Decimal_new) (\<lambda>avg_px_open'.
     bind_e (bind_e (dict_get values ''realized_points'') Decimal_new) (\<lambda>realized_points'.
     bind_e (bind_e (dict_get values ''realized_return'') Decimal_new) (\<lambda>realized_return'.
     bind_e (bind_e (dict_str values ''realized_pnl'') (Money_from_str cs)) (\<lambda>realized_pnl'.
     bind_e (dict_get values ''ts_opened_ns'') (\<lambda>ts_opened_ns_v.
     bind_e (bind_e (dict_str values ''event_id'') (UUID_from_str cs)) (\<lambda>event_id'.
     bind_e (dict_get values ''timestamp_ns'') (\<lambda>timestamp_ns_v.
     bind_e (as_int64 ts_opened_ns_v) (\<lambda>ts_opened_ns'.
     bind_e (as_int64 timestamp_ns_v) (\<lambda>timestamp_ns'.
       PositionOpened_init trader_id' strategy_id' instrument_id' position_id' account_id' from_order' entry' side'
         net_qty' quantity' peak_qty' last_qty' last_px' currency'
         avg_px_open' realized_points' realized_return' realized_pnl'
         ts_opened_ns' event_id' timestamp_ns')))))))))))))))))))))))"

text \<open>
  \<open>PositionChanged.from_dict_c\<close> reads the average close price first: a falsy
  value (\<open>None\<close>, an empty string, 0) gives \<open>None\<close>.
\<close>

definition PositionChanged_from_dict_c where
  "PositionChanged_from_dict_c cs values =
     bind_e (dict_get values ''avg_px_close'') (\<lambda>avg_px_close_value.
     bind_e (if truthy avg_px_close_value
               then bind_e (Decimal_new avg_px_close_value) (\<lambda>d. Inr (Some d))
             else Inr None) (\<lambda>avg_px_close'.
     bind_e (bind_e (dict_str values ''trader_id'') (TraderId_init cs)) (\<lambda>trader_id'.
     bind_e (bind_e (dict_str values ''strategy_id'') (StrategyId_init cs)) (\<lambda>strategy_id'.
     bind_e (bind_e (dict_str values ''instrument_id'') (InstrumentId_from_str cs)) (\<lambda>instrument_id'.
     bind_e (bind_e (dict_str values ''position_id'') (PositionId_init cs)) (\<lambda>position_id'.
     bind_e (bind_e (dict_str values ''account_id'') (AccountId_from_str cs)) (\<lambda>account_id'.
     bind_e (bind_e (dict_str values ''from_order'') (ClientOrderId_init cs)) (\<lambda>from_order'.
     bind_e (bind_e (dict_str values ''entry'') (OrderSide_from_str cs)) (\<lambda>entry'.
     bind_e (bind_e (dict_str values ''side'') (PositionSide_from_str cs)) (\<lambda>side'.
     bind_e (bind_e (dict_get values ''net_qty'') Decimal_new) (\<lambda>net_qty'.
     bind_e (bind_e (dict_str values ''quantity'') (Quantity_from_str cs)) (\<lambda>quantity'.
     bind_e (bind_e (dict_str values ''peak_qty'') (Quantity_from_str cs)) (\<lambda>peak_qty'.
     bind_e (bind_e (dict_str values ''last_qty'') (Quantity_from_str cs)) (\<lambda>last_qty'.
     bind_e (bind_e (dict_str values ''last_px'') (Price_from_str cs)) (\<lambda>last_px'.
     bind_e (bind_e (dict_str values ''currency'') (Currency_from_str cs)) (\<lambda>currency'.
     bind_e (bind_e (dict_get values ''avg_px_open'') Decimal_new) (\<lambda>avg_px_open'.
     bind_e (bind_e (dict_get values ''realized_points'') Decimal_new) (\<lambda>realized_points'.
     bind_e (bind_e (dict_get values ''realized_return'') Decimal_new) (\<lambda>realized_return'.
     bind_e (bind_e (dict_str values ''realized_pnl'') (Money_from_str cs)) (\<lambda>realized_pnl'.
     bind_e (dict_get values ''ts_opened_ns'') (\<lambda>ts_opened_ns_v.
     bind_e (bind_e (dict_str values ''event_id'') (UUID_from_str cs)) (\<lambda>event_id'.
     bind_e (dict_get values ''timestamp_ns'') (\<lambda>timestamp_ns_v.
     bind_e (as_int64 ts_opened_ns_v) (\<lambda>ts_opened_ns'.
     bind_e (as_int64 timestamp_ns_v) (\<lambda>timestamp_ns'.
       PositionChanged_init trader_id' strategy_id' instrument_id' position_id' account_id' from_order' entry' side'
         net_qty' quantity' peak_qty' last_qty' last_px' currency'
         avg_px_open' avg_px_close' realized_points' realized_return' realized_pnl'
         ts_opened_ns' event_id' timestamp_ns')))))))))))))))))))))))))"

definition PositionClosed_from_dict_c where
  "PositionClosed_from_dict_c cs values =
     bind_e (bind_e (dict_str values ''trader_id'') (TraderId_init cs)) (\<lambda>trader_id'.
     bind_e (bind_e (dict_str values ''strategy_id'') (StrategyId_init cs)) (\<lambda>strategy_id'.
     bind_e (bind_e (dict_str values ''instrument_id'') (InstrumentId_from_str cs)) (\<lambda>instrument_id'.
     bind_e (bind_e (dict_str values ''position_id'') (PositionId_init cs)) (\<lambda>position_id'.
     bind_e (bind_e (dict_str values ''account_id'') (AccountId_from_str cs)) (\<lambda>account_id'.
     bind_e (bind_e (dict_str values ''from_order'') (ClientOrderId_init cs)) (\<lambda>from_order'.
     bind_e (bind_e (dict_str values ''entry'') (OrderSide_from_str cs)) (\<lambda>entry'.
     bind_e (bind_e (dict_str values ''side'') (PositionSide_from_str cs)) (\<lambda>side'.
     bind_e (bind_e (dict_get values ''net_qty'') Decimal_new) (\<lambda>net_qty'.
     bind_e (bind_e (dict_str values ''quantity'') (Quantity_from_str cs)) (\<lambda>quantity'.
     bind_e (bind_e (dict_str values ''peak_qty'') (Quantity_from_str cs)) (\<lambda>peak_qty'.
     bind_e (bind_e (dict_str values ''last_qty'') (Quantity_from_str cs)) (\<lambda>last_qty'.
     bind_e (bind_e (dict_str values ''last_px'') (Price_from_str cs)) (\<lambda>last_px'.
     bind_e (bind_e (dict_str values ''currency'') (Currency_from_str cs)) (\<lambda>currency'.
     bind_e (bind_e (dict_get values ''avg_px_open'') Decimal_new) (\<lambda>avg_px_open'.
     bind_e (bind_e (dict_get values ''avg_px_close'') Decimal_new) (\<lambda>avg_px_close'.
     bind_e (bind_e (dict_get values ''realized_points'') Decimal_new) (\<lambda>realized_points'.
     bind_e (bind_e (dict_get values ''realized_return'') Decimal_new) (\<lambda>realized_return'.
     bind_e (bind_e (dict_str values ''realized_pnl'') (Money_from_str cs)) (\<lambda>realized_pnl'.
     bind_e (dict_get values ''ts_opened_ns'') (\<lambda>ts_opened_ns_v.
     bind_e (dict_get values ''ts_closed_ns'') (\<lambda>ts_closed_ns_v.
     bind_e (dict_get values ''duration_ns'') (\<lambda>duration_ns_v.
     bind_e (bind_e (dict_str values ''event_id'') (UUID_from_str cs)) (\<lambda>event_id'.
     bind_e (dict_get values ''timestamp_ns'') (\<lambda>timestamp_ns_v.
     bind_e (as_int64 ts_opened_ns_v) (\<lambda>ts_opened_ns'.
     bind_e (as_int64 ts_closed_ns_v) (\<lambda>ts_closed_ns'.
     bind_e (as_int64 duration_ns_v) (\<lambda>duration_ns'.
     bind_e (as_int64 timestamp_ns_v) (\<lambda>timestamp_ns'.
       PositionClosed_init trader_id' strategy_id' instrument_id' position_id' account_id' from_order' entry' side'
         net_qty' quantity' peak_qty' last_qty' last_px' currency'
         avg_px_open' (Some avg_px_close') realized_points' realized_return' realized_pnl'
         ts_opened_ns' ts_closed_ns' duration_ns' event_id' timestamp_ns'))))))))))))))))))))))))))))"

subsection \<open>The side an event class allows\<close>

text \<open>
  The side fits the class: a closed event is flat, an opened or changed one is
  not.  An outcome fits when it is an exception or an event whose side fits.
\<close>

definition side_fits :: "('tid, 'sid, 'iid, 'pid, 'aid, 'oid, 'qty, 'px, 'cur, 'mon, 'uid) PositionEvent \<Rightarrow> bool" where
  "side_fits e =
     (case event_class e of
        PositionOpened \<Rightarrow> side e \<noteq> FLAT
      | PositionChanged \<Rightarrow> side e \<noteq> FLAT
      | PositionClosed \<Rightarrow> side e = FLAT)"

definition outcome_fits ::
  "py_error + ('tid, 'sid, 'iid, 'pid, 'aid, 'oid, 'qty, 'px, 'cur, 'mon, 'uid) PositionEvent \<Rightarrow> bool" where
  "outcome_fits r = (case r of Inl err \<Rightarrow> True | Inr e \<Rightarrow> side_fits e)"

subsection \<open>Round trips\<close>

text \<open>The \<open>to_dict_c\<close> and the \<open>from_dict_c\<close> of an event's own class.\<close>

definition event_to_dict_c where
  "event_to_dict_c cs obj =
     (case event_class obj of
        PositionOpened \<Rightarrow> PositionOpened_to_dict_c cs obj
      | PositionChanged \<Rightarrow> PositionChanged_to_dict_c cs obj
      | PositionClosed \<Rightarrow> PositionClosed_to_dict_c cs obj)"

definition event_from_dict_c where
  "event_from_dict_c cls cs vs =
     (case cls of
        PositionOpened \<Rightarrow> PositionOpened_from_dict_c cs vs
      | PositionChanged \<Rightarrow> PositionChanged_from_dict_c cs vs
      | PositionClosed \<Rightarrow> PositionClosed_from_dict_c cs vs)"

text \<open>
  A well-formed event is one its class's constructor can have made: the side
  fits the class; an opened event has no average close price; an opened or
  changed event has closing time and duration 0; a closed event has an average
  close price.
\<close>

definition well_formed :: "('tid, 'sid, 'iid, 'pid, 'aid, 'oid, 'qty, 'px, 'cur, 'mon, 'uid) PositionEvent \<Rightarrow> bool" where
  "well_formed e =
     (case event_class e of
        PositionOpened \<Rightarrow>
          side e \<noteq> FLAT \<and> avg_px_close e = None \<and> ts_closed_ns e = 0 \<and> duration_ns e = 0
      | PositionChanged \<Rightarrow> side e \<noteq> FLAT \<and> ts_closed_ns e = 0 \<and> duration_ns e = 0
      | PositionClosed \<Rightarrow> side e = FLAT \<and> avg_px_close e \<noteq> None)"

text \<open>The average close price, if there is one, is not a zero.\<close>

definition close_price_truthy :: "('tid, 'sid, 'iid, 'pid, 'aid, 'oid, 'qty, 'px, 'cur, 'mon, 'uid) PositionEvent \<Rightarrow> bool" where
  "close_price_truthy e = (case avg_px_close e of None \<Rightarrow> True | Some d \<Rightarrow> dec_bool d)"

text \<open>
  What is assumed of the classes that are not among the sources: on the
  attributes of the event at hand, reading back what was written gives the
  attribute.
\<close>

definition codecs_roundtrip where
  "codecs_roundtrip cs e =
     (TraderId_init cs (TraderId_value cs (trader_id e)) = Inr (trader_id e) \<and>
      StrategyId_init cs (StrategyId_value cs (strategy_id e)) = Inr (strategy_id e) \<and>
      InstrumentId_from_str cs (InstrumentId_value cs (instrument_id e)) = Inr (instrument_id e) \<and>
      PositionId_init cs (PositionId_value cs (position_id e)) = Inr (position_id e) \<and>
      AccountId_from_str cs (AccountId_value cs (account_id e)) = Inr (account_id e) \<and>
      ClientOrderId_init cs (ClientOrderId_value cs (from_order e)) = Inr (from_order e) \<and>
      OrderSide_from_str cs (OrderSide_to_str cs (entry e)) = Inr (entry e) \<and>
      PositionSide_from_str cs (PositionSide_to_str cs (side e)) = Inr (side e) \<and>
      Quantity_from_str cs (Quantity_str cs (quantity e)) = Inr (quantity e) \<and>
      Quantity_from_str cs (Quantity_str cs (peak_qty e)) = Inr (peak_qty e) \<and>
      Quantity_from_str cs (Quantity_str cs (last_qty e)) = Inr (last_qty e) \<and>
      Price_from_str cs (Price_str cs (last_px e)) = Inr (last_px e) \<and>
      Currency_from_str cs (Currency_code cs (currency e)) = Inr (currency e) \<and>
      Money_from_str cs (Money_to_str cs (realized_pnl e)) = Inr (realized_pnl e) \<and>
      UUID_from_str cs (UUID_value cs (event_id e)) = Inr (event_id e))"

subsection \<open>Example inputs\<close>

text \<open>Small concrete inputs, used where a statement is run on an example.\<close>

definition px :: "rat \<Rightarrow> Price" where
  "px x = \<lparr>price_value = x\<rparr>"

definition example_tick :: "rat \<Rightarrow> rat \<Rightarrow> int \<Rightarrow> Tick" where
  "example_tick b a t = \<lparr>bid = px b, ask = px a, bid_size = 4, ask_size = 6, timestamp = utc t\<rparr>"

definition example_bar_type :: "BarStructure \<Rightarrow> int \<Rightarrow> PriceType \<Rightarrow> BarType" where
  "example_bar_type s n pt =
     \<lparr>symbol = ''AUDUSD'',
      bar_specification = \<lparr>step = n, bar_structure = s, price_type = pt\<rparr>\<rparr>"

definition example_builder :: BarBuilder where
  "example_builder =
     \<lparr> bar_spec = \<lparr>step = 2, bar_structure = TICK, price_type = MID\<rparr>,
       last_update = Some (utc 5), count = 1,
       b_open = Some (px 10), b_high = Some (px 10), b_low = Some (px 10), b_close = Some (px 10),
       b_volume = 3, use_previous_close = False \<rparr>"



definition example_fill :: "OrderSide \<Rightarrow> int \<Rightarrow> nat \<Rightarrow> int \<Rightarrow> Fill" where
  "example_fill sd qty tenths t =
     \<lparr> order_side = sd, filled_quantity = qty,
       average_price = \<lparr>dec_sign = False, dec_int = tenths, dec_exp = - 1\<rparr>,
       execution_time = utc t, execution_id = ''E1'', execution_ticket = ''T1'' \<rparr>"

definition example_position :: Position where
  "example_position = Position_init ''AUDUSD'' ''P1'' (utc 0)"

text \<open>
  Codecs for the examples: every absent class is a string that its constructor
  accepts as it is, and the enums are written by name.
\<close>

definition example_codecs ::
  "(string, string, string, string, string, string, string, string, string, string, string) codecs" where
  "example_codecs =
     \<lparr> TraderId_init = Inr, TraderId_value = (\<lambda>x. x),
       StrategyId_init = Inr, StrategyId_value = (\<lambda>x. x),
       InstrumentId_from_str = Inr, InstrumentId_value = (\<lambda>x. x),
       PositionId_init = Inr, PositionId_value = (\<lambda>x. x),
       AccountId_from_str = Inr, AccountId_value = (\<lambda>x. x),
       ClientOrderId_init = Inr, ClientOrderId_value = (\<lambda>x. x),
       OrderSide_from_str =
         (\<lambda>s. if s = ''BUY'' then Inr BUY else if s = ''SELL'' then Inr SELL else Inl ValueError),
       OrderSide_to_str = (\<lambda>x. case x of BUY \<Rightarrow> ''BUY'' | SELL \<Rightarrow> ''SELL''),
       PositionSide_from_str =
         (\<lambda>s. if s = ''FLAT'' then Inr FLAT else if s = ''LONG'' then Inr LONG
              else if s = ''SHORT'' then Inr SHORT else Inl ValueError),
       PositionSide_to_str = (\<lambda>x. case x of FLAT \<Rightarrow> ''FLAT'' | LONG \<Rightarrow> ''LONG'' | SHORT \<Rightarrow> ''SHORT''),
       Quantity_from_str = Inr, Quantity_str = (\<lambda>x. x),
       Price_from_str = Inr, Price_str = (\<lambda>x. x),
       Currency_from_str = Inr, Currency_code = (\<lambda>x. x),
       Money_from_str = Inr, Money_to_str = (\<lambda>x. x),
       UUID_from_str = Inr, UUID_value = (\<lambda>x. x) \<rparr>"

definition example_model_position ::
  "PositionSide \<Rightarrow> Decimal option \<Rightarrow>
   (string, string, string, string, string, string, string, string, string) ModelPosition" where
  "example_model_position sd close_px =
     \<lparr> pos_trader_id = ''TESTER-000'', pos_strategy_id = ''S-001'',
       pos_instrument_id = ''AUD/USD.SIM'', pos_id = ''P-1'', pos_account_id = ''SIM-000'',
       pos_from_order = ''O-1'', pos_entry = BUY, pos_side = sd,
       pos_net_qty = \<lparr>dec_sign = False, dec_int = 100, dec_exp = 0\<rparr>,
       pos_quantity = ''100'', pos_peak_qty = ''100'', pos_quote_currency = ''USD'',
       pos_avg_px_open = \<lparr>dec_sign = False, dec_int = 100001, dec_exp = - 5\<rparr>,
       pos_avg_px_close = close_px,
       pos_realized_points = \<lparr>dec_sign = False, dec_int = 0, dec_exp = 0\<rparr>,
       pos_realized_return = \<lparr>dec_sign = False, dec_int = 123456, dec_exp = - 6\<rparr>,
       pos_realized_pnl = ''-2.00 USD'',
       pos_ts_opened_ns = 1000, pos_ts_closed_ns = 2000, pos_duration_ns = 1000 \<rparr>"

definition example_fill_event :: "(string, string) FillEvent" where
  "example_fill_event = \<lparr>fill_last_qty = ''100'', fill_last_px = ''1.00001''\<rparr>"

definition example_opened ::
  "(string, string, string, string, string, string, string, string, string, string, string) PositionEvent" where
  "example_opened =
     \<lparr> event_class = PositionOpened,
       trader_id = ''TESTER-000'', strategy_id = ''S-001'', instrument_id = ''AUD/USD.SIM'',
       position_id = ''P-1'', account_id = ''SIM-000'', from_order = ''O-1'',
       entry = BUY, side = LONG,
       net_qty = \<lparr>dec_sign = False, dec_int = 100, dec_exp = 0\<rparr>,
       quantity = ''100'', peak_qty = ''100'', last_qty = ''100'', last_px = ''1.00001'',
       currency = ''USD'',
       avg_px_open = \<lparr>dec_sign = False, dec_int = 100001, dec_exp = - 5\<rparr>,
       avg_px_close = None,
       realized_points = \<lparr>dec_sign = False, dec_int = 0, dec_exp = 0\<rparr>,
       realized_return = \<lparr>dec_sign = False, dec_int = 123456, dec_exp = - 6\<rparr>,
       realized_pnl = ''-2.00 USD'',
       ts_opened_ns = 1000, ts_closed_ns = 0, duration_ns = 0,
       event_id = ''2d89666b-1a1e-4a75-b193-4eb3b454c757'', timestamp_ns = 3000 \<rparr>"

section \<open>Properties of the bar builder and the aggregators\<close>

lemma builder_ok_init: "builder_ok (BarBuilder_init spec upc)"
  by (simp add: builder_ok_def BarBuilder_init_def)

lemma builder_ok_reset: "builder_ok b \<Longrightarrow> builder_ok (BarBuilder_reset b)"
  by (auto simp: builder_ok_def BarBuilder_reset_def split: option.splits)

lemma get_price_supported:
  "supported (bar_spec b) \<Longrightarrow> \<exists>p. get_price mk b tick = Inr p"
  by (auto simp: supported_def get_price_def)

text \<open>
  Claim C9.  Let the tick's derived price be \<open>p\<close> (so the price type is one the
  builder supports) and let the builder be in a state it can reach.  Then
  the body of \<open>update\<close> runs to its end, so that the call returns the builder the
  body made; it sets close to \<open>p\<close> and adds one to \<open>count\<close>.  If the builder
  has no open price (first update after a null reset) it sets open, high and low
  to \<open>p\<close>.  Otherwise open stays, high becomes the larger of high and \<open>p\<close>, low the
  smaller of low and \<open>p\<close> (a tie keeps the old extreme), and at most one of high
  and low changes.
\<close>

theorem update_sets_ohlc:
  assumes "get_price mk b tick = Inr p" and "builder_ok b"
  shows "\<exists>b'. BarBuilder_update_body mk b tick = Inr b' \<and>
           BarBuilder_update mk b tick = b' \<and>
           b_close b' = Some p \<and> count b' = count b + 1 \<and>
           (case b_open b of
              None \<Rightarrow> b_open b' = Some p \<and> b_high b' = Some p \<and> b_low b' = Some p
            | Some opn \<Rightarrow>
                (case (b_high b, b_low b) of
                   (Some h, Some l) \<Rightarrow>
                      b_open b' = Some opn \<and>
                      b_high b' = Some (if price_value h < price_value p then p else h) \<and>
                      b_low b' = Some (if price_value p < price_value l then p else l) \<and>
                      (b_high b' = b_high b \<or> b_low b' = b_low b)
                 | _ \<Rightarrow> False))"
proof (cases "b_open b")
  case None
  then show ?thesis
    using assms(1) by (simp add: BarBuilder_update_def BarBuilder_update_body_def)
next
  case (Some opn)
  with assms(2) obtain h l where hl: "b_high b = Some h" "b_low b = Some l"
      "price_value l \<le> price_value h"
    by (auto simp: builder_ok_def split: option.splits)
  show ?thesis
    using assms(1) Some hl by (auto simp: BarBuilder_update_def BarBuilder_update_body_def)
qed

theorem update_sets_ohlc_witness:
  "get_price px example_builder (example_tick 12 13 7) = Inr (px (25 / 2)) \<and>
   builder_ok example_builder \<and>
   BarBuilder_update_body px example_builder (example_tick 12 13 7) =
     Inr (example_builder\<lparr>b_high := Some (px (25 / 2)), b_close := Some (px (25 / 2)),
                           b_volume := 8, count := 2, last_update := Some (utc 7)\<rparr>) \<and>
   BarBuilder_update px example_builder (example_tick 12 13 7) =
     example_builder\<lparr>b_high := Some (px (25 / 2)), b_close := Some (px (25 / 2)),
                      b_volume := 8, count := 2, last_update := Some (utc 7)\<rparr>"
proof -
  have h1: "get_price px example_builder (example_tick 12 13 7) = Inr (px (25 / 2))"
    by (simp add: get_price_def example_builder_def example_tick_def px_def)
  have h2: "builder_ok example_builder"
    by (simp add: builder_ok_def example_builder_def px_def)
  have h3: "BarBuilder_update_body px example_builder (example_tick 12 13 7) =
     Inr (example_builder\<lparr>b_high := Some (px (25 / 2)), b_close := Some (px (25 / 2)),
                           b_volume := 8, count := 2, last_update := Some (utc 7)\<rparr>)"
    by (simp add: BarBuilder_update_body_def get_price_def get_volume_def get_volume_body_def
        example_builder_def example_tick_def px_def)
  from update_sets_ohlc [OF h1 h2] h3
  have "BarBuilder_update px example_builder (example_tick 12 13 7) =
     example_builder\<lparr>b_high := Some (px (25 / 2)), b_close := Some (px (25 / 2)),
                      b_volume := 8, count := 2, last_update := Some (utc 7)\<rparr>"
    by auto
  with h1 h2 h3 show ?thesis by (intro conjI)
qed

lemma update_ok:
  assumes "supported (bar_spec b)" and "builder_ok b"
  shows "\<exists>b'. BarBuilder_update_body mk b tick = Inr b' \<and> builder_ok b' \<and>
           bar_spec b' = bar_spec b \<and> use_previous_close b' = use_previous_close b \<and>
           count b' = count b + 1 \<and> b_close b' \<noteq> None"
proof -
  obtain p where p: "get_price mk b tick = Inr p"
    using get_price_supported [OF assms(1)] by blast
  show ?thesis
    using p assms(2)
    by (auto simp: BarBuilder_update_body_def builder_ok_def split: option.splits)
qed

lemma update_call: "BarBuilder_update_body mk b tick = Inr b' \<Longrightarrow> BarBuilder_update mk b tick = b'"
  by (simp add: BarBuilder_update_def)

lemma update_close:
  "BarBuilder_update_body mk b tick = Inr b' \<Longrightarrow> get_price mk b tick = Inr p \<Longrightarrow> b_close b' = Some p"
  by (auto simp: BarBuilder_update_body_def split: option.splits if_splits sum.splits)

lemma update_all_ok:
  "supported (bar_spec b) \<Longrightarrow> builder_ok b \<Longrightarrow>
   \<exists>b'. BarBuilder_update_all mk b ts = Inr b' \<and> builder_ok b' \<and>
        bar_spec b' = bar_spec b \<and> use_previous_close b' = use_previous_close b \<and>
        count b' = count b + int (length ts)"
proof (induction ts arbitrary: b)
  case Nil
  then show ?case by simp
next
  case (Cons t ts)
  from update_ok [OF Cons.prems, of mk t] obtain b1 where
    b1: "BarBuilder_update_body mk b t = Inr b1" "builder_ok b1" "bar_spec b1 = bar_spec b"
        "use_previous_close b1 = use_previous_close b" "count b1 = count b + 1"
    by blast
  from Cons.IH [of b1] b1 Cons.prems(1) obtain b' where
    "BarBuilder_update_all mk b1 ts = Inr b'" "builder_ok b'" "bar_spec b' = bar_spec b1"
    "use_previous_close b' = use_previous_close b1" "count b' = count b1 + int (length ts)"
    by auto
  with b1 show ?case by simp
qed

lemma update_all_snoc:
  "BarBuilder_update_all mk b (ts @ [t]) =
     (case BarBuilder_update_all mk b ts of Inl e \<Rightarrow> Inl e | Inr b' \<Rightarrow> BarBuilder_update_body mk b' t)"
  by (induction ts arbitrary: b) (auto split: sum.splits)

lemma update_all_calls:
  "BarBuilder_update_all mk b ts = Inr b' \<Longrightarrow> foldl (BarBuilder_update mk) b ts = b'"
proof (induction ts arbitrary: b)
  case Nil
  then show ?case by simp
next
  case (Cons t ts)
  then show ?case by (auto simp: BarBuilder_update_def split: sum.splits)
qed

text \<open>
  Claim C8, amended.  A builder whose specification has price type \<open>MID\<close>, in a
  state it can reach, is fed a non-empty tick sequence, one call of \<open>update\<close> for
  each tick.  Every update runs to its end, and the bar then built closes at the
  \<open>Price\<close> that the constructor, given \<open>(bid + ask) / 2\<close> of the last tick and
  nothing else, makes of it, whatever the constructor is.  Nothing of the
  \<open>BarSpecification\<close> but its price type enters, and no rounding is applied to
  the midpoint by the builder.
\<close>

theorem mid_close_is_last_midpoint:
  assumes "price_type (bar_spec b) = MID" and "builder_ok b" and "ts \<noteq> []"
  shows "\<exists>b'. BarBuilder_update_all mk b ts = Inr b' \<and>
           foldl (BarBuilder_update mk) b ts = b' \<and>
           close_price (fst (BarBuilder_build b' ct)) =
             Some (mk ((price_value (bid (last ts)) + price_value (ask (last ts))) / 2))"
proof -
  have sup: "supported (bar_spec b)" using assms(1) by (simp add: supported_def)
  obtain us u where ts: "ts = us @ [u]"
    using assms(3) by (metis rev_exhaust)
  from update_all_ok [OF sup assms(2), of mk us] obtain b1 where
    b1: "BarBuilder_update_all mk b us = Inr b1" "builder_ok b1" "bar_spec b1 = bar_spec b"
    by blast
  have sup1: "supported (bar_spec b1)" using sup b1 by simp
  from update_ok [OF sup1 b1(2), of mk u] obtain b2 where
    b2: "BarBuilder_update_body mk b1 u = Inr b2" by blast
  have "get_price mk b1 u = Inr (mk ((price_value (bid u) + price_value (ask u)) / 2))"
    using assms(1) b1(3) by (simp add: get_price_def)
  from update_close [OF b2 this]
  have "b_close b2 = Some (mk ((price_value (bid u) + price_value (ask u)) / 2))" .
  moreover have all: "BarBuilder_update_all mk b ts = Inr b2"
    using b1 b2 ts by (simp add: update_all_snoc)
  moreover have "last ts = u" using ts by simp
  ultimately show ?thesis
    using update_all_calls [OF all] by (simp add: BarBuilder_build_def Let_def)
qed

theorem mid_close_is_last_midpoint_witness:
  "price_type (bar_spec example_builder) = MID \<and> builder_ok example_builder \<and>
   [example_tick 12 13 7, example_tick 11 12 8] \<noteq> [] \<and>
   (\<exists>b'. BarBuilder_update_all px example_builder [example_tick 12 13 7, example_tick 11 12 8] = Inr b' \<and>
         foldl (BarBuilder_update px) example_builder [example_tick 12 13 7, example_tick 11 12 8] = b' \<and>
         close_price (fst (BarBuilder_build b' None)) = Some (px (23 / 2)))"
proof -
  have h1: "price_type (bar_spec example_builder) = MID" by (simp add: example_builder_def)
  have h2: "builder_ok example_builder" by (simp add: builder_ok_def example_builder_def px_def)
  have h3: "[example_tick 12 13 7, example_tick 11 12 8] \<noteq> []" by simp
  show ?thesis
    using mid_close_is_last_midpoint [OF h1 h2 h3, of px None] h1 h2
    by (simp add: example_tick_def px_def)
qed

text \<open>
  Claim C8 as stated fails.  A tick quoted to five decimal places, bid 1.00001
  and ask 1.00002, is fed to a \<open>MID\<close> builder.  The bar closes at 1.000015, the
  midpoint as it is, a number of six decimal places: it is not the midpoint
  rounded to five places (1.00002), nor to any fewer.  (The \<open>Price\<close> constructor
  is the one modelled from the spec.)
\<close>

theorem mid_close_counterexample:
  "(case bar_of_ticks Price_init (bar_specification (example_bar_type TICK 1 MID))
           [example_tick (100001 / 100000) (100002 / 100000) 7] of
      Inl e \<Rightarrow> None
    | Inr bar \<Rightarrow> map_option price_value (close_price bar)) = Some (200003 / 200000) \<and>
   (100001 / 100000 + 100002 / 100000) / 2 = (200003 / 200000 :: rat) \<and>
   round_to_places 5 (200003 / 200000) = 100002 / 100000 \<and>
   list_all (\<lambda>p. round_to_places p (200003 / 200000) \<noteq> 200003 / 200000) [0, 1, 2, 3, 4, 5]"
  by code_simp

text \<open>
  Claim C2, as the code runs it.  \<open>build()\<close> on a builder that was never updated
  raises nothing: it returns a bar whose four prices and whose timestamp are
  \<open>None\<close> and whose volume is 0, and leaves the builder as constructed.
\<close>

theorem build_never_updated:
  "BarBuilder_build (BarBuilder_init spec upc) None =
     (\<lparr> open_price = None, high_price = None, low_price = None, close_price = None,
        volume = 0, bar_timestamp = None \<rparr>,
      BarBuilder_init spec upc)"
  by (simp add: BarBuilder_build_def BarBuilder_init_def BarBuilder_reset_def)

lemma update_forgets_last_update:
  "BarBuilder_update_body mk (b\<lparr>last_update := lu\<rparr>) t = BarBuilder_update_body mk b t"
  by (auto simp: BarBuilder_update_body_def get_price_def get_volume_def get_volume_body_def
      split: option.splits sum.splits)

lemma update_all_forgets_last_update:
  "ts \<noteq> [] \<Longrightarrow>
   BarBuilder_update_all mk (b\<lparr>last_update := lu\<rparr>) ts = BarBuilder_update_all mk b ts"
  by (cases ts) (simp_all add: update_forgets_last_update)

lemma feed_below_step:
  "BarBuilder_update_all mk (builder agg) ts = Inr b' \<Longrightarrow>
   0 \<le> count (builder agg) \<Longrightarrow> supported (bar_spec (builder agg)) \<Longrightarrow> builder_ok (builder agg) \<Longrightarrow>
   count (builder agg) + int (length ts) < agg_step agg \<Longrightarrow>
   TickBarAggregator_feed mk agg ts = Inr (agg\<lparr>builder := b'\<rparr>)"
proof (induction ts arbitrary: agg)
  case Nil
  then show ?case by simp
next
  case (Cons t ts)
  from update_ok [OF Cons.prems(3,4), of mk t] obtain b1 where
    b1: "BarBuilder_update_body mk (builder agg) t = Inr b1" "builder_ok b1"
        "bar_spec b1 = bar_spec (builder agg)" "count b1 = count (builder agg) + 1"
    by blast
  have upd: "TickBarAggregator_update mk agg t = Inr (agg\<lparr>builder := b1\<rparr>)"
    using b1 update_call [OF b1(1)] Cons.prems(5) by (simp add: TickBarAggregator_update_def)
  have "TickBarAggregator_feed mk (agg\<lparr>builder := b1\<rparr>) ts = Inr (agg\<lparr>builder := b1\<rparr>\<lparr>builder := b'\<rparr>)"
    using Cons.prems b1 by (intro Cons.IH) simp_all
  then show ?case using upd by simp
qed

lemma feed_append:
  "TickBarAggregator_feed mk agg (xs @ ys) =
     (case TickBarAggregator_feed mk agg xs of
        Inl e \<Rightarrow> Inl e
      | Inr agg' \<Rightarrow> TickBarAggregator_feed mk agg' ys)"
  by (induction xs arbitrary: agg) (auto split: sum.splits)

lemma fresh_props:
  "count ((BarBuilder_init spec False)\<lparr>last_update := lu\<rparr>) = 0"
  "builder_ok ((BarBuilder_init spec False)\<lparr>last_update := lu\<rparr>)"
  "bar_spec ((BarBuilder_init spec False)\<lparr>last_update := lu\<rparr>) = spec"
  by (simp_all add: BarBuilder_init_def builder_ok_def)

lemma update_last_update:
  "BarBuilder_update_body mk b t = Inr b' \<Longrightarrow> last_update b' = Some (timestamp t)"
  by (auto simp: BarBuilder_update_body_def split: option.splits if_splits sum.splits)

lemma reset_fresh:
  "\<not> use_previous_close b \<Longrightarrow>
   BarBuilder_reset b = (BarBuilder_init (bar_spec b) False)\<lparr>last_update := last_update b\<rparr>"
  by (cases b) (simp add: BarBuilder_reset_def BarBuilder_init_def)

lemma feed_one_chunk:
  assumes sup: "supported spec" and N: "0 < N" and st: "agg_step agg = int N"
    and bld: "builder agg = (BarBuilder_init spec False)\<lparr>last_update := lu\<rparr>"
    and len: "length c = N"
  shows "\<exists>bar. bar_of_ticks mk spec c = Inr bar \<and>
           TickBarAggregator_feed mk agg c =
             Inr (agg\<lparr>builder := (BarBuilder_init spec False)\<lparr>last_update := Some (timestamp (last c))\<rparr>,
                      handled := handled agg @ [(bar_type agg, bar)]\<rparr>)"
proof -
  from N len have "c \<noteq> []" by auto
  then obtain us u where c: "c = us @ [u]" by (metis rev_exhaust)
  have lus: "int (length us) + 1 = int N" using c len by simp
  have sup0: "supported (bar_spec (builder agg))" and ok0: "builder_ok (builder agg)"
    and c0: "count (builder agg) = 0" and upc0: "\<not> use_previous_close (builder agg)"
    using sup bld by (simp_all add: fresh_props) (simp add: BarBuilder_init_def)
  from update_all_ok [OF sup0 ok0, of mk us] obtain b1 where
    b1: "BarBuilder_update_all mk (builder agg) us = Inr b1" "builder_ok b1"
        "bar_spec b1 = bar_spec (builder agg)" "use_previous_close b1 = use_previous_close (builder agg)"
        "count b1 = count (builder agg) + int (length us)"
    by blast
  have f1: "TickBarAggregator_feed mk agg us = Inr (agg\<lparr>builder := b1\<rparr>)"
    using b1(1) c0 sup0 ok0 lus st by (intro feed_below_step) simp_all
  have sup1: "supported (bar_spec b1)" using sup0 b1 by simp
  from update_ok [OF sup1 b1(2), of mk u] obtain b2 where
    b2: "BarBuilder_update_body mk b1 u = Inr b2" "bar_spec b2 = bar_spec b1"
        "use_previous_close b2 = use_previous_close b1" "count b2 = count b1 + 1"
    by blast
  have lu2: "last_update b2 = Some (timestamp u)" using update_last_update [OF b2(1)] .
  have cnt: "count b2 = agg_step agg" using b2 b1 c0 lus st by simp
  have spec2: "bar_spec b2 = spec" using b2 b1 bld by (simp add: fresh_props)
  have rs: "BarBuilder_reset b2 = (BarBuilder_init spec False)\<lparr>last_update := Some (timestamp u)\<rparr>"
    using reset_fresh [of b2] b2 b1 upc0 lu2 spec2 by simp
  have all: "BarBuilder_update_all mk (builder agg) c = Inr b2"
    using b1 b2 c by (simp add: update_all_snoc)
  have "BarBuilder_update_all mk (BarBuilder_init spec False) c = Inr b2"
    using all bld update_all_forgets_last_update [OF \<open>c \<noteq> []\<close>, where b = "BarBuilder_init spec False" and lu = lu and mk = mk]
    by simp
  then have bar: "bar_of_ticks mk spec c = Inr (fst (BarBuilder_build b2 None))"
    by (simp add: bar_of_ticks_def)
  have "TickBarAggregator_update mk (agg\<lparr>builder := b1\<rparr>) u =
          Inr (handle_bar (agg\<lparr>builder := BarBuilder_reset b2\<rparr>) (fst (BarBuilder_build b2 None)))"
    using update_call [OF b2(1)] cnt by (simp add: TickBarAggregator_update_def BarBuilder_build_def Let_def)
  then have "TickBarAggregator_feed mk agg c =
          Inr (handle_bar (agg\<lparr>builder := BarBuilder_reset b2\<rparr>) (fst (BarBuilder_build b2 None)))"
    using f1 c by (simp add: feed_append)
  then show ?thesis
    using bar rs c by (simp add: handle_bar_def)
qed

lemma full_chunks_short: "length xs < n \<Longrightarrow> full_chunks n xs = []"
  by (simp add: full_chunks_def)

lemma full_chunks_long:
  "0 < n \<Longrightarrow> n \<le> length xs \<Longrightarrow> full_chunks n xs = take n xs # full_chunks n (drop n xs)"
  by (simp add: full_chunks_def le_div_geq)

lemma chunks_length: "length (chunks k n xs) = k"
  by (induction k arbitrary: xs) simp_all

lemma chunks_nth: "i < k \<Longrightarrow> chunks k n xs ! i = take n (drop (i * n) xs)"
proof (induction k arbitrary: xs i)
  case 0
  then show ?case by simp
next
  case (Suc k)
  then show ?case by (cases i) (simp_all add: add.commute)
qed

lemma feed_chunks:
  assumes sup: "supported spec" and N: "0 < N"
  shows "agg_step agg = int N \<Longrightarrow>
         builder agg = (BarBuilder_init spec False)\<lparr>last_update := lu\<rparr> \<Longrightarrow>
         \<exists>agg'. TickBarAggregator_feed mk agg ticks = Inr agg' \<and>
            map (\<lambda>h. Inr (snd h)) (handled agg') =
              map (\<lambda>h. Inr (snd h)) (handled agg) @ map (bar_of_ticks mk spec) (full_chunks N ticks) \<and>
            count (builder agg') = int (length ticks mod N)"
proof (induction ticks arbitrary: agg lu rule: length_induct)
  case (1 ticks)
  have sup0: "supported (bar_spec (builder agg))" and ok0: "builder_ok (builder agg)"
    and c0: "count (builder agg) = 0"
    using sup 1(3) by (simp_all add: fresh_props)
  show ?case
  proof (cases "length ticks < N")
    case True
    from update_all_ok [OF sup0 ok0, of mk ticks] obtain b' where
      b': "BarBuilder_update_all mk (builder agg) ticks = Inr b'"
          "count b' = count (builder agg) + int (length ticks)"
      by blast
    have "TickBarAggregator_feed mk agg ticks = Inr (agg\<lparr>builder := b'\<rparr>)"
      using b'(1) c0 sup0 ok0 True 1(2) by (intro feed_below_step) simp_all
    then show ?thesis using True b' c0 by (simp add: full_chunks_short)
  next
    case False
    let ?c = "take N ticks" and ?r = "drop N ticks"
    have len: "length ?c = N" using False by simp
    from feed_one_chunk [OF sup N 1(2) 1(3) len, of mk] obtain bar where
      bar: "bar_of_ticks mk spec ?c = Inr bar"
      and fc: "TickBarAggregator_feed mk agg ?c =
             Inr (agg\<lparr>builder := (BarBuilder_init spec False)\<lparr>last_update := Some (timestamp (last ?c))\<rparr>,
                      handled := handled agg @ [(bar_type agg, bar)]\<rparr>)"
      by blast
    let ?agg1 = "agg\<lparr>builder := (BarBuilder_init spec False)\<lparr>last_update := Some (timestamp (last ?c))\<rparr>,
                      handled := handled agg @ [(bar_type agg, bar)]\<rparr>"
    have shorter: "length ?r < length ticks" using False N by simp
    from 1(1) [rule_format, OF shorter, of ?agg1 "Some (timestamp (last ?c))"] 1(2)
    obtain agg' where
      a': "TickBarAggregator_feed mk ?agg1 ?r = Inr agg'"
          "map (\<lambda>h. Inr (snd h)) (handled agg') =
             map (\<lambda>h. Inr (snd h)) (handled ?agg1) @ map (bar_of_ticks mk spec) (full_chunks N ?r)"
          "count (builder agg') = int (length ?r mod N)"
      by auto
    have "TickBarAggregator_feed mk agg ticks = Inr agg'"
      using feed_append [of mk agg ?c ?r] fc a'(1) by simp
    moreover have "full_chunks N ticks = ?c # full_chunks N ?r"
      using False by (intro full_chunks_long [OF N]) simp
    moreover have "length ticks mod N = length ?r mod N"
      using False by (simp add: le_mod_geq)
    ultimately show ?thesis using a' bar by simp
  qed
qed

text \<open>
  Claim C7.  A new \<open>TickBarAggregator\<close> with a supported price type and step
  \<open>N > 0\<close> is fed a tick stream of length \<open>T\<close>.  No update fails; exactly
  \<open>T div N\<close> bars reach the handler; the bar at index \<open>i\<close> (counting from 0) is
  the bar an empty builder makes of exactly the ticks at positions \<open>i * N + 1\<close>
  to \<open>(i + 1) * N\<close>; and the \<open>T mod N\<close> trailing ticks are still in the builder,
  with no bar made of them.
\<close>

theorem tick_bars_are_the_full_chunks:
  assumes "supported (bar_specification bt)"
    and "step (bar_specification bt) = int N" and "0 < N"
  shows "\<exists>agg. TickBarAggregator_feed mk (TickBarAggregator_init bt) ticks = Inr agg \<and>
           length (handled agg) = length ticks div N \<and>
           (\<forall>i < length ticks div N.
              bar_of_ticks mk (bar_specification bt) (take N (drop (i * N) ticks)) =
                Inr (snd (handled agg ! i))) \<and>
           count (builder agg) = int (length ticks mod N)"
proof -
  let ?agg0 = "TickBarAggregator_init bt"
  have st: "agg_step ?agg0 = int N" using assms(2) by (simp add: TickBarAggregator_init_def)
  have bld: "builder ?agg0 = (BarBuilder_init (bar_specification bt) False)\<lparr>last_update := None\<rparr>"
    by (simp add: TickBarAggregator_init_def BarBuilder_init_def)
  from feed_chunks [OF assms(1,3) st bld, of mk ticks] obtain agg where
    agg: "TickBarAggregator_feed mk ?agg0 ticks = Inr agg"
         "map (\<lambda>h. Inr (snd h)) (handled agg) =
            map (\<lambda>h. Inr (snd h)) (handled ?agg0) @
            map (bar_of_ticks mk (bar_specification bt)) (full_chunks N ticks)"
         "count (builder agg) = int (length ticks mod N)"
    by blast
  have eq: "map (\<lambda>h. Inr (snd h) :: py_error + Bar) (handled agg) =
            map (bar_of_ticks mk (bar_specification bt)) (full_chunks N ticks)"
    using agg(2) by (simp add: TickBarAggregator_init_def)
  have len: "length (handled agg) = length ticks div N"
    using arg_cong [OF eq, of length] by (simp add: full_chunks_def chunks_length)
  have nth: "bar_of_ticks mk (bar_specification bt) (take N (drop (i * N) ticks)) =
                Inr (snd (handled agg ! i))" if "i < length ticks div N" for i
  proof -
    have "map (\<lambda>h. Inr (snd h) :: py_error + Bar) (handled agg) ! i =
          map (bar_of_ticks mk (bar_specification bt)) (full_chunks N ticks) ! i"
      using eq by simp
    then show ?thesis
      using that len by (simp add: full_chunks_def chunks_length chunks_nth)
  qed
  show ?thesis using agg(1,3) len nth by blast
qed

theorem tick_bars_are_the_full_chunks_witness:
  "supported (bar_specification (example_bar_type TICK 2 BID)) \<and>
   step (bar_specification (example_bar_type TICK 2 BID)) = int 2 \<and> (0::nat) < 2 \<and>
   (\<exists>agg. TickBarAggregator_feed px (TickBarAggregator_init (example_bar_type TICK 2 BID))
              [example_tick 12 13 7, example_tick 11 12 8, example_tick 14 15 9] = Inr agg \<and>
          map snd (handled agg) =
            [\<lparr>open_price = Some (px 12), high_price = Some (px 12), low_price = Some (px 11),
              close_price = Some (px 11), volume = 8, bar_timestamp = Some (utc 8)\<rparr>] \<and>
          count (builder agg) = 1)"
proof -
  let ?bt = "example_bar_type TICK 2 BID"
  let ?ts = "[example_tick 12 13 7, example_tick 11 12 8, example_tick 14 15 9]"
  have h1: "supported (bar_specification ?bt)" by (simp add: supported_def example_bar_type_def)
  have h2: "step (bar_specification ?bt) = int 2" by (simp add: example_bar_type_def)
  have h3: "(0::nat) < 2" by simp
  from tick_bars_are_the_full_chunks [OF h1 h2 h3, of px ?ts] obtain agg where
    agg: "TickBarAggregator_feed px (TickBarAggregator_init ?bt) ?ts = Inr agg"
         "length (handled agg) = 1"
         "bar_of_ticks px (bar_specification ?bt) (take 2 (drop (0 * 2) ?ts)) = Inr (snd (handled agg ! 0))"
         "count (builder agg) = 1"
    by auto
  have "snd (handled agg ! 0) =
          \<lparr>open_price = Some (px 12), high_price = Some (px 12), low_price = Some (px 11),
           close_price = Some (px 11), volume = 8, bar_timestamp = Some (utc 8)\<rparr>"
    using agg(3)
    by (simp add: bar_of_ticks_def BarBuilder_update_body_def BarBuilder_build_def BarBuilder_reset_def
        BarBuilder_init_def get_price_def get_volume_def get_volume_body_def example_bar_type_def
        example_tick_def px_def)
  moreover obtain h where "handled agg = [h]"
    using agg(2) by (cases "handled agg") auto
  ultimately have "map snd (handled agg) =
            [\<lparr>open_price = Some (px 12), high_price = Some (px 12), low_price = Some (px 11),
              close_price = Some (px 11), volume = 8, bar_timestamp = Some (utc 8)\<rparr>]"
    by simp
  with agg(1,4) have "\<exists>agg. TickBarAggregator_feed px (TickBarAggregator_init ?bt) ?ts = Inr agg \<and>
          map snd (handled agg) =
            [\<lparr>open_price = Some (px 12), high_price = Some (px 12), low_price = Some (px 11),
              close_price = Some (px 11), volume = 8, bar_timestamp = Some (utc 8)\<rparr>] \<and>
          count (builder agg) = 1"
    by (intro exI [of _ agg]) simp
  with h1 h2 h3 show ?thesis by (intro conjI)
qed

























lemma sorted_map_hd:
  "sorted (map f xs) \<Longrightarrow> x \<in> set xs \<Longrightarrow> f (hd xs) \<le> f x"
  by (cases xs) auto




text \<open>
  Why \<open>DAY\<close> bars are left out above.  The start time of a \<open>DAY\<close> timer is
  naive, so is the clock's next event time, and on a clock whose time carries a
  \<open>tzinfo\<close> the first update with a tick whose timestamp carries one raises
  \<open>TypeError\<close>, the builder updated and no bar made.
\<close>

lemma day_update_raises_type_error:
  assumes "TimeBarAggregator_init bt c0 = Inr agg0" and "is_test_clock c0"
    and "bar_structure (bar_specification bt) = DAY" and "0 < step (bar_specification bt)"
    and "dt_aware (timestamp t)"
  shows "TimeBarAggregator_update mk agg0 t =
           Raised TypeError (agg0\<lparr>builder := BarBuilder_update mk (builder agg0) t\<rparr>)"
  using assms
  by (auto simp: TimeBarAggregator_init_def set_build_timer_def set_build_timer_body_def
      set_timer_def get_interval_def get_start_time_def TimeBarAggregator_update_def
      dt_le_def dt_add_def Let_def split: if_splits)

section \<open>Properties of the position\<close>

lemma update_position_valid:
  assumes "0 < qty" and "dec_positive price"
  shows "average_entry_price (update_position p sd qty price t) = Some price \<and>
         events (update_position p sd qty price t) = events p \<and>
         relative_quantity (update_position p sd qty price t) =
           wrap32 (relative_quantity p + signed_quantity sd qty)"
  using assms
  by (cases sd) (simp_all add: update_position_def update_position_body_def Let_def signed_quantity_def)

lemma apply_valid_fill:
  assumes "fill_of ev = Some f" and "valid_fill f"
  shows "average_entry_price (Position_apply p ev) = Some (average_price f) \<and>
         relative_quantity (Position_apply p ev) =
           wrap32 (relative_quantity p + signed_quantity (order_side f) (filled_quantity f))"
proof -
  from assms(2) have q: "0 < filled_quantity f" and c: "in_c_int (filled_quantity f)"
    and d: "dec_positive (average_price f)"
    by (simp_all add: valid_fill_def)
  note u = update_position_valid [OF q d, of "p\<lparr>events := events p @ [ev]\<rparr>" "order_side f" "execution_time f"]
  have "apply_fill (p\<lparr>events := events p @ [ev]\<rparr>) f =
          Returned ((update_position (p\<lparr>events := events p @ [ev]\<rparr>) (order_side f) (filled_quantity f)
                      (average_price f) (execution_time f))
                    \<lparr>execution_ids := execution_ids (update_position (p\<lparr>events := events p @ [ev]\<rparr>)
                        (order_side f) (filled_quantity f) (average_price f) (execution_time f)) @ [execution_id f],
                     execution_tickets := execution_tickets (update_position (p\<lparr>events := events p @ [ev]\<rparr>)
                        (order_side f) (filled_quantity f) (average_price f) (execution_time f)) @ [execution_ticket f]\<rparr>)"
    using c by (simp add: apply_fill_def Let_def)
  then show ?thesis
    using assms(1) u by (cases ev) (simp_all add: Position_apply_def Position_apply_body_def)
qed

lemma apply_all_snoc:
  "Position_apply_all p (es @ [e]) = Position_apply (Position_apply_all p es) e"
  by (induction es arbitrary: p) simp_all

lemma wrap32_id: "in_c_int x \<Longrightarrow> wrap32 x = x"
  by (simp add: in_c_int_def wrap32_def)

lemma fill_on_side_quantity:
  "fill_on_side s ev \<Longrightarrow> 0 < event_quantity ev"
  by (auto simp: fill_on_side_def event_quantity_def valid_fill_def split: option.splits)

lemma opening_quantities_nonneg:
  "list_all (fill_on_side s) es \<Longrightarrow> 0 \<le> sum_list (map event_quantity es)"
proof (induction es)
  case Nil
  then show ?case by simp
next
  case (Cons e es)
  then show ?case using fill_on_side_quantity [of s e] by simp
qed

lemma signed_in_c_int:
  "0 \<le> x \<Longrightarrow> in_c_int x \<Longrightarrow> in_c_int (signed_quantity s x)"
  by (cases s) (simp_all add: signed_quantity_def in_c_int_def)

lemma signed_add:
  "signed_quantity s x + signed_quantity s y = signed_quantity s (x + y)"
  by (cases s) (simp_all add: signed_quantity_def)

lemma opening_net:
  "list_all (fill_on_side s) es \<Longrightarrow> in_c_int (sum_list (map event_quantity es)) \<Longrightarrow>
   relative_quantity p = 0 \<Longrightarrow>
   relative_quantity (Position_apply_all p es) = signed_quantity s (sum_list (map event_quantity es))"
proof (induction es rule: rev_induct)
  case Nil
  then show ?case by (cases s) (simp_all add: signed_quantity_def)
next
  case (snoc e es)
  from snoc.prems(1) have all: "list_all (fill_on_side s) es" and e: "fill_on_side s e"
    by simp_all
  from e obtain f where f: "fill_of e = Some f" "valid_fill f" "order_side f = s"
    by (auto simp: fill_on_side_def split: option.splits)
  have q: "event_quantity e = filled_quantity f" using f by (simp add: event_quantity_def)
  have pos: "0 < event_quantity e" using fill_on_side_quantity [OF e] .
  have nn: "0 \<le> sum_list (map event_quantity es)" using opening_quantities_nonneg [OF all] .
  have tot: "in_c_int (sum_list (map event_quantity es) + event_quantity e)"
    using snoc.prems(2) by simp
  then have part: "in_c_int (sum_list (map event_quantity es))"
    using nn pos by (simp add: in_c_int_def)
  have ih: "relative_quantity (Position_apply_all p es) =
              signed_quantity s (sum_list (map event_quantity es))"
    using snoc.IH [OF all part snoc.prems(3)] .
  have "relative_quantity (Position_apply_all p (es @ [e])) =
          wrap32 (signed_quantity s (sum_list (map event_quantity es)) +
                  signed_quantity s (event_quantity e))"
    using apply_valid_fill [OF f(1,2), of "Position_apply_all p es"] ih f(3) q
    by (simp add: apply_all_snoc)
  also have "\<dots> = signed_quantity s (sum_list (map event_quantity es) + event_quantity e)"
    using signed_in_c_int [OF _ tot, of s] nn pos by (simp add: signed_add wrap32_id)
  finally show ?case by simp
qed

lemma sum_take_le:
  "list_all (fill_on_side s) es \<Longrightarrow>
   sum_list (map event_quantity (take n es)) \<le> sum_list (map event_quantity es)"
proof -
  assume a: "list_all (fill_on_side s) es"
  have "list_all (fill_on_side s) (drop n es)"
    using a by (simp add: list_all_iff) (meson in_set_dropD)
  from opening_quantities_nonneg [OF this]
  have "0 \<le> sum_list (map event_quantity (drop n es))" .
  moreover have "sum_list (map event_quantity es) =
      sum_list (map event_quantity (take n es)) + sum_list (map event_quantity (drop n es))"
    by (metis append_take_drop_id map_append sum_list.append)
  ultimately show ?thesis by simp
qed

text \<open>
  Claim C1, amended.  A new position is given fills that all increase exposure
  in the opening direction (valid fills on one order side, the net quantity
  within the C int).  After each apply, the \<open>n\<close>-th say, the net quantity is the
  signed sum of the first \<open>n\<close> quantities and the position's
  \<open>average_entry_price\<close> is the \<open>average_price\<close> that the \<open>n\<close>-th fill carries: the
  price of the fill just applied, not an average over the fills so far.
\<close>

theorem average_entry_price_is_last_fill_price:
  assumes "opening_fills s evs" and "0 < n" and "n \<le> length evs"
  shows "average_entry_price (Position_apply_all (Position_init symb pid ts) (take n evs)) =
           map_option average_price (fill_of (evs ! (n - 1))) \<and>
         fill_of (evs ! (n - 1)) \<noteq> None \<and>
         relative_quantity (Position_apply_all (Position_init symb pid ts) (take n evs)) =
           signed_quantity s (sum_list (map event_quantity (take n evs)))"
proof -
  let ?p0 = "Position_init symb pid ts"
  from assms(1) have all: "list_all (fill_on_side s) evs"
    and tot: "in_c_int (sum_list (map event_quantity evs))"
    by (simp_all add: opening_fills_def)
  have tk: "take n evs = take (n - 1) evs @ [evs ! (n - 1)]"
    using assms(2,3) by (metis Suc_pred' Suc_le_lessD take_Suc_conv_app_nth)
  have mem: "evs ! (n - 1) \<in> set evs" using assms(2,3) by simp
  then have e: "fill_on_side s (evs ! (n - 1))" using all by (simp add: list_all_iff)
  then obtain f where f: "fill_of (evs ! (n - 1)) = Some f" "valid_fill f"
    by (auto simp: fill_on_side_def split: option.splits)
  have avg: "average_entry_price (Position_apply_all ?p0 (take n evs)) = Some (average_price f)"
    using apply_valid_fill [OF f, of "Position_apply_all ?p0 (take (n - 1) evs)"]
    by (subst tk) (simp add: apply_all_snoc)
  have alln: "list_all (fill_on_side s) (take n evs)"
    using all by (simp add: list_all_iff) (meson in_set_takeD)
  have nn: "0 \<le> sum_list (map event_quantity (take n evs))"
    using opening_quantities_nonneg [OF alln] .
  have part: "in_c_int (sum_list (map event_quantity (take n evs)))"
    using sum_take_le [OF all, of n] tot nn by (simp add: in_c_int_def)
  have rq0: "relative_quantity ?p0 = 0" by (simp add: Position_init_def)
  from opening_net [OF alln part rq0] avg f show ?thesis by simp
qed

theorem average_entry_price_is_last_fill_price_witness:
  "opening_fills BUY
     [OrderFilled (example_fill BUY 100 100 1), OrderFilled (example_fill BUY 50 120 2)] \<and>
   (0::nat) < 2 \<and>
   2 \<le> length [OrderFilled (example_fill BUY 100 100 1), OrderFilled (example_fill BUY 50 120 2)] \<and>
   average_entry_price (Position_apply_all example_position
       [OrderFilled (example_fill BUY 100 100 1), OrderFilled (example_fill BUY 50 120 2)]) =
     Some \<lparr>dec_sign = False, dec_int = 120, dec_exp = - 1\<rparr> \<and>
   relative_quantity (Position_apply_all example_position
       [OrderFilled (example_fill BUY 100 100 1), OrderFilled (example_fill BUY 50 120 2)]) = 150"
proof -
  let ?evs = "[OrderFilled (example_fill BUY 100 100 1), OrderFilled (example_fill BUY 50 120 2)]"
  have h1: "opening_fills BUY ?evs"
    by (simp add: opening_fills_def fill_on_side_def event_quantity_def valid_fill_def
        example_fill_def in_c_int_def dec_positive_def)
  have h2: "(0::nat) < 2" by simp
  have h3: "2 \<le> length ?evs" by simp
  have "average_entry_price (Position_apply_all example_position ?evs) =
          Some \<lparr>dec_sign = False, dec_int = 120, dec_exp = - 1\<rparr> \<and>
        relative_quantity (Position_apply_all example_position ?evs) = 150"
    using average_entry_price_is_last_fill_price [OF h1 h2 h3, of "''AUDUSD''" "''P1''" "utc 0"]
    by (simp add: example_position_def example_fill_def event_quantity_def signed_quantity_def)
  with h1 h2 h3 show ?thesis by (intro conjI) simp_all
qed

text \<open>
  Claim C1 as stated fails: buy 100 at 10.0 and buy 50 at 12.0 both increase
  exposure in the opening direction; after them the average entry price is
  12.0, while the quantity-weighted average of the two fills is 32/3.
\<close>

theorem average_entry_price_counterexample:
  "opening_fills BUY
     [OrderFilled (example_fill BUY 100 100 1), OrderFilled (example_fill BUY 50 120 2)] \<and>
   map_option dec_value
     (average_entry_price (Position_apply_all example_position
        [OrderFilled (example_fill BUY 100 100 1), OrderFilled (example_fill BUY 50 120 2)])) =
     Some 12 \<and>
   weighted_average_price [example_fill BUY 100 100 1, example_fill BUY 50 120 2] = 32 / 3 \<and>
   map_option dec_value
     (average_entry_price (Position_apply_all example_position
        [OrderFilled (example_fill BUY 100 100 1), OrderFilled (example_fill BUY 50 120 2)])) \<noteq>
     Some (weighted_average_price [example_fill BUY 100 100 1, example_fill BUY 50 120 2])"
  by code_simp

text \<open>
  Claim C3, as the code runs it.  A first fill that sells 100 runs to its end
  (nothing is raised), leaves the net quantity at -100 and sets \<open>peak_quantity\<close>
  to -100, not to 100, the largest \<open>abs(net_qty)\<close> reached; a second fill that
  sells 50 lowers it to -150.
\<close>

theorem sell_makes_peak_negative:
  "Position_apply_body example_position (OrderFilled (example_fill SELL 100 10 1)) =
     Returned (example_position
       \<lparr> relative_quantity := - 100, peak_quantity := - 100, entry_time := Some (utc 1),
         average_entry_price := Some \<lparr>dec_sign = False, dec_int = 10, dec_exp = - 1\<rparr>,
         events := [OrderFilled (example_fill SELL 100 10 1)],
         execution_ids := [''E1''], execution_tickets := [''T1''] \<rparr>) \<and>
   peak_quantity (Position_apply example_position (OrderFilled (example_fill SELL 100 10 1))) = - 100 \<and>
   peak_of [- 100] = 100 \<and>
   peak_quantity (Position_apply_all example_position
     [OrderFilled (example_fill SELL 100 10 1), OrderFilled (example_fill SELL 50 10 2)]) = - 150 \<and>
   peak_of [- 100, - 150] = 150"
  by code_simp

text \<open>
  Claim C5, amended.  For every position and every event that is neither a full
  nor a partial fill, \<open>apply\<close> leaves every field as it was except the event log,
  to which the rejected event has been appended.
\<close>

theorem apply_non_fill_appends_the_event:
  "fill_of ev = None \<Longrightarrow> Position_apply p ev = p\<lparr>events := events p @ [ev]\<rparr>"
  by (cases ev) (simp_all add: Position_apply_def Position_apply_body_def)

theorem apply_non_fill_appends_the_event_witness:
  "fill_of OrderCancelled = None \<and>
   Position_apply example_position OrderCancelled = example_position\<lparr>events := [OrderCancelled]\<rparr>"
proof -
  have h: "fill_of OrderCancelled = None" by simp
  show ?thesis
    using apply_non_fill_appends_the_event [OF h, of example_position] h
    by (simp add: example_position_def Position_init_def)
qed

text \<open>
  Claim C5 as stated fails: after \<open>OrderCancelled\<close> is applied to a new position
  the position is not as it was before the call; its event log, empty before,
  holds the rejected event.
\<close>

theorem apply_non_fill_counterexample:
  "fill_of OrderCancelled = None \<and>
   events example_position = [] \<and>
   events (Position_apply example_position OrderCancelled) = [OrderCancelled] \<and>
   Position_apply example_position OrderCancelled \<noteq> example_position"
  by (simp add: Position_apply_def Position_apply_body_def example_position_def Position_init_def)

section \<open>Properties of the decimal strings\<close>

declare digits_of_nat.simps [simp del]

lemma is_digit_digit_char: "k < 10 \<Longrightarrow> is_digit (digit_char k)"
  by (simp add: is_digit_def digit_char_def)

lemma digit_val_digit_char: "k < 10 \<Longrightarrow> digit_val (digit_char k) = k"
  by (simp add: digit_val_def digit_char_def)

lemma not_digit_chars:
  "\<not> is_digit CHR ''.''" "\<not> is_digit CHR ''E''" "\<not> is_digit CHR ''-''" "\<not> is_digit CHR ''+''"
  by (simp_all add: is_digit_def)

lemma zero_char: "is_digit CHR ''0''" "digit_val CHR ''0'' = 0"
  by (simp_all add: is_digit_def digit_val_def)

lemma digits_all_digit: "list_all is_digit (digits_of_nat n)"
proof (induction n rule: digits_of_nat.induct)
  case (1 n)
  show ?case
  proof (cases "n < 10")
    case True
    then show ?thesis by (subst digits_of_nat.simps) (simp add: is_digit_digit_char)
  next
    case False
    then show ?thesis
      using 1 by (subst digits_of_nat.simps) (simp add: is_digit_digit_char)
  qed
qed

lemma digits_nonempty: "digits_of_nat n \<noteq> []"
  by (subst digits_of_nat.simps) simp

lemma nat_of_digits_Nil: "nat_of_digits [] = 0"
  by (simp add: nat_of_digits_def)

lemma nat_of_digits_snoc: "nat_of_digits (xs @ [c]) = 10 * nat_of_digits xs + digit_val c"
  by (simp add: nat_of_digits_def)

lemma nat_of_digits_append:
  "nat_of_digits (xs @ ys) = nat_of_digits xs * 10 ^ length ys + nat_of_digits ys"
proof (induction ys rule: rev_induct)
  case Nil
  then show ?case by (simp add: nat_of_digits_Nil)
next
  case (snoc y ys)
  have "nat_of_digits (xs @ ys @ [y]) = 10 * nat_of_digits (xs @ ys) + digit_val y"
    using nat_of_digits_snoc [of "xs @ ys" y] by simp
  then show ?case using snoc by (simp add: nat_of_digits_snoc algebra_simps)
qed

lemma nat_of_digits_Cons_zero: "nat_of_digits (CHR ''0'' # xs) = nat_of_digits xs"
  using nat_of_digits_append [of "[CHR ''0'']" xs]
  by (simp add: nat_of_digits_def zero_char)

lemma nat_of_digits_zeros: "nat_of_digits (replicate k CHR ''0'' @ xs) = nat_of_digits xs"
  by (induction k) (simp_all add: nat_of_digits_Cons_zero)

lemma nat_of_digits_digits: "nat_of_digits (digits_of_nat n) = n"
proof (induction n rule: digits_of_nat.induct)
  case (1 n)
  show ?case
  proof (cases "n < 10")
    case True
    then show ?thesis
      by (subst digits_of_nat.simps)
         (simp add: nat_of_digits_def digit_val_digit_char)
  next
    case False
    then show ?thesis
      using 1 by (subst digits_of_nat.simps) (simp add: nat_of_digits_snoc digit_val_digit_char)
  qed
qed

lemma take_digits:
  "list_all is_digit ds \<Longrightarrow> rest = [] \<or> \<not> is_digit (hd rest) \<Longrightarrow>
   takeWhile is_digit (ds @ rest) = ds \<and> dropWhile is_digit (ds @ rest) = rest"
  by (induction ds) (cases rest; auto)+

lemma parse_exponent_signed:
  "parse_exponent (CHR ''E'' # signed_str i) = Some i"
  by (simp add: parse_exponent_def signed_str_def digits_nonempty digits_all_digit
      nat_of_digits_digits not_digit_chars)

lemma is_digit_plain: "is_digit c \<Longrightarrow> plain_char c"
  by (auto simp: is_digit_def plain_char_def is_space_def Let_def)

lemma digits_plain: "list_all is_digit ds \<Longrightarrow> list_all plain_char ds"
  by (simp add: list_all_iff is_digit_plain)

lemma plain_chars:
  "plain_char CHR ''-''" "plain_char CHR ''+''" "plain_char CHR ''.''"
  "plain_char CHR ''E''" "plain_char CHR ''e''"
  by (simp_all add: plain_char_def is_space_def)

lemma strip_plain:
  assumes "list_all plain_char s"
  shows "filter (\<lambda>c. c \<noteq> CHR ''_'') (str_strip s) = s"
proof (cases "s = []")
  case True
  then show ?thesis by (simp add: str_strip_def)
next
  case False
  from assms have a: "\<forall>c \<in> set s. \<not> is_space c" "\<forall>c \<in> set s. c \<noteq> CHR ''_''"
    by (simp_all add: list_all_iff plain_char_def)
  have "\<not> is_space (hd s)" using a(1) False by simp
  then have d1: "dropWhile is_space s = s" using False by (cases s) simp_all
  have "\<not> is_space (hd (rev s))" using a(1) False by (simp add: hd_rev)
  then have d2: "dropWhile is_space (rev s) = rev s" using False by (cases "rev s") simp_all
  have "filter (\<lambda>c. c \<noteq> CHR ''_'') s = s" using a(2) by (simp add: filter_id_conv)
  then show ?thesis by (simp add: str_strip_def d1 d2)
qed

lemma parse_exponent_plain:
  assumes "parse_exponent ex = Some e"
  shows "list_all plain_char ex"
proof (cases ex)
  case Nil
  then show ?thesis by simp
next
  case (Cons c r)
  with assms have c: "c = CHR ''E'' \<or> c = CHR ''e''"
    by (auto simp: parse_exponent_def split: if_splits)
  then have pc: "plain_char c" using plain_chars by auto
  show ?thesis
  proof (cases r)
    case Nil
    then show ?thesis using Cons pc by simp
  next
    case (Cons x r')
    show ?thesis
    proof (cases "x = CHR ''-'' \<or> x = CHR ''+''")
      case True
      with assms c \<open>ex = c # r\<close> Cons have "list_all is_digit r'"
        by (auto simp: parse_exponent_def split: if_splits)
      then show ?thesis using \<open>ex = c # r\<close> Cons pc True plain_chars
        by (auto simp: digits_plain)
    next
      case False
      with assms c \<open>ex = c # r\<close> Cons have "list_all is_digit r"
        by (auto simp: parse_exponent_def split: if_splits)
      then show ?thesis using \<open>ex = c # r\<close> pc by (simp add: digits_plain)
    qed
  qed
qed

lemma Decimal_of_str_parts:
  assumes ip: "list_all is_digit ip" "ip \<noteq> []" and fp: "list_all is_digit fp"
    and dot: "dot = ''.'' @ fp \<or> (dot = [] \<and> fp = [])"
    and ex: "parse_exponent ex = Some e" "ex = [] \<or> hd ex = CHR ''E''"
  shows "Decimal_of_str ((if neg then ''-'' else []) @ ip @ dot @ ex) =
           Inr \<lparr>dec_sign = neg, dec_int = nat_of_digits (ip @ fp), dec_exp = e - int (length fp)\<rparr>"
proof -
  let ?body = "ip @ dot @ ex"
  obtain c cs where ipc: "ip = c # cs" "is_digit c" using ip by (cases ip) auto
  have c_ns: "c \<noteq> CHR ''-''" "c \<noteq> CHR ''+''" using ipc(2) not_digit_chars by auto
  have strip: "(case (if neg then ''-'' else []) @ ?body of
               [] \<Rightarrow> (False, (if neg then ''-'' else []) @ ?body)
             | c # r' \<Rightarrow>
                 if c = CHR ''-'' then (True, r')
                 else if c = CHR ''+'' then (False, r')
                 else (False, (if neg then ''-'' else []) @ ?body)) = (neg, ?body)"
    using ipc(1) c_ns by simp
  have exnd: "ex = [] \<or> \<not> is_digit (hd ex)" using ex(2) not_digit_chars by auto
  have rest1: "dot @ ex = [] \<or> \<not> is_digit (hd (dot @ ex))"
    using dot exnd not_digit_chars by auto
  from take_digits [OF ip(1) rest1]
  have t1: "takeWhile is_digit ?body = ip" "dropWhile is_digit ?body = dot @ ex" by simp_all
  from take_digits [OF fp exnd]
  have t2: "takeWhile is_digit (fp @ ex) = fp" "dropWhile is_digit (fp @ ex) = ex" by simp_all
  have frac: "(case dot @ ex of
               [] \<Rightarrow> ([], dot @ ex)
             | c # t \<Rightarrow>
                 if c = CHR ''.'' then (takeWhile is_digit t, dropWhile is_digit t)
                 else ([], dot @ ex)) = (fp, ex)"
  proof (cases "dot = []")
    case True
    then have "fp = []" using dot by auto
    then show ?thesis using True ex(2) by (cases ex) auto
  next
    case False
    then have "dot = ''.'' @ fp" using dot by auto
    then show ?thesis using t2 by simp
  qed
  have "list_all plain_char dot" using dot fp plain_chars by (auto simp: digits_plain)
  then have "list_all plain_char ((if neg then ''-'' else []) @ ?body)"
    using ip(1) parse_exponent_plain [OF ex(1)] plain_chars by (simp add: digits_plain)
  from strip_plain [OF this]
  have cl: "filter (\<lambda>c. c \<noteq> CHR ''_'') (str_strip ((if neg then ''-'' else []) @ ?body)) =
              (if neg then ''-'' else []) @ ?body" .
  show ?thesis
    unfolding Decimal_of_str_def cl Decimal_parse_def strip using t1 frac ex(1) ip(2) by simp
qed

lemma parse_exponent_Nil: "parse_exponent [] = Some 0"
  by (simp add: parse_exponent_def)

lemma list_all_take_drop:
  "list_all P xs \<Longrightarrow> list_all P (take k xs) \<and> list_all P (drop k xs)"
  by (metis append_take_drop_id list_all_append)

text \<open>\<open>Decimal(str(d))\<close> is \<open>d\<close>, exponent and sign included.\<close>

lemma Decimal_str_roundtrip: "Decimal_of_str (Decimal_str d) = Inr d"
proof -
  define ds where "ds = digits_of_nat (dec_int d)"
  define n where "n = int (length ds)"
  have dig: "list_all is_digit ds" and ne: "ds \<noteq> []" and val: "nat_of_digits ds = dec_int d"
    by (simp_all add: ds_def digits_all_digit digits_nonempty nat_of_digits_digits)
  have npos: "1 \<le> n" using ne by (cases ds) (simp_all add: n_def)
  have dd: "d = \<lparr>dec_sign = dec_sign d, dec_int = dec_int d, dec_exp = dec_exp d\<rparr>" by simp
  consider
      (frac) "dec_exp d \<le> 0" "dec_exp d + n > - 6" "dec_exp d + n \<le> 0"
    | (whole) "dec_exp d \<le> 0" "dec_exp d + n > - 6" "dec_exp d + n \<ge> n"
    | (mixed) "dec_exp d \<le> 0" "dec_exp d + n > - 6" "0 < dec_exp d + n" "dec_exp d + n < n"
    | (sci1) "\<not> (dec_exp d \<le> 0 \<and> dec_exp d + n > - 6)" "n = 1"
    | (sci) "\<not> (dec_exp d \<le> 0 \<and> dec_exp d + n > - 6)" "1 < n"
    using npos by linarith
  then show ?thesis
  proof cases
    case frac
    let ?z = "replicate (nat (- (dec_exp d + n))) CHR ''0''"
    have s: "Decimal_str d = (if dec_sign d then ''-'' else []) @ ''0'' @ (''.'' @ ?z @ ds) @ []"
      using frac ne by (simp add: Decimal_str_def Let_def ds_def [symmetric] n_def [symmetric])
    have fp: "list_all is_digit (?z @ ds)" using dig by (auto simp: zero_char list_all_iff)
    have "Decimal_of_str (Decimal_str d) =
            Inr \<lparr>dec_sign = dec_sign d, dec_int = nat_of_digits (''0'' @ ?z @ ds),
                 dec_exp = 0 - int (length (?z @ ds))\<rparr>"
      unfolding s
      by (rule Decimal_of_str_parts) (use fp in \<open>simp_all add: zero_char parse_exponent_Nil\<close>)
    moreover have "nat_of_digits (''0'' @ ?z @ ds) = dec_int d"
      using val by (simp add: nat_of_digits_Cons_zero nat_of_digits_zeros)
    moreover have "0 - int (length (?z @ ds)) = dec_exp d"
      using frac by (simp add: n_def)
    ultimately show ?thesis using dd by simp
  next
    case whole
    then have e0: "dec_exp d = 0" by simp
    have s: "Decimal_str d = (if dec_sign d then ''-'' else []) @ ds @ [] @ []"
      using whole e0 npos ne by (simp add: Decimal_str_def Let_def ds_def [symmetric] n_def [symmetric])
    have "Decimal_of_str (Decimal_str d) =
            Inr \<lparr>dec_sign = dec_sign d, dec_int = nat_of_digits (ds @ []),
                 dec_exp = 0 - int (length ([] :: string))\<rparr>"
      unfolding s
      by (rule Decimal_of_str_parts) (use dig ne in \<open>simp_all add: parse_exponent_Nil\<close>)
    then show ?thesis using val e0 dd by simp
  next
    case mixed
    let ?k = "nat (dec_exp d + n)"
    have s: "Decimal_str d = (if dec_sign d then ''-'' else []) @ take ?k ds @ (''.'' @ drop ?k ds) @ []"
      using mixed ne by (simp add: Decimal_str_def Let_def ds_def [symmetric] n_def [symmetric])
    have tk: "take ?k ds \<noteq> []" using mixed ne by (simp add: n_def)
    have "Decimal_of_str (Decimal_str d) =
            Inr \<lparr>dec_sign = dec_sign d, dec_int = nat_of_digits (take ?k ds @ drop ?k ds),
                 dec_exp = 0 - int (length (drop ?k ds))\<rparr>"
      unfolding s
      by (rule Decimal_of_str_parts)
         (use list_all_take_drop [OF dig, of ?k] tk in \<open>simp_all add: parse_exponent_Nil\<close>)
    moreover have "0 - int (length (drop ?k ds)) = dec_exp d"
      using mixed by (simp add: n_def)
    ultimately show ?thesis using val dd by simp
  next
    case sci1
    have s: "Decimal_str d = (if dec_sign d then ''-'' else []) @ ds @ [] @
               (''E'' @ signed_str (dec_exp d + n - 1))"
      using sci1 ne by (auto simp add: Decimal_str_def Let_def ds_def [symmetric] n_def [symmetric])
    have "Decimal_of_str (Decimal_str d) =
            Inr \<lparr>dec_sign = dec_sign d, dec_int = nat_of_digits (ds @ []),
                 dec_exp = (dec_exp d + n - 1) - int (length ([] :: string))\<rparr>"
      unfolding s
      by (rule Decimal_of_str_parts) (use dig ne in \<open>simp_all add: parse_exponent_signed\<close>)
    then show ?thesis using val sci1 dd by simp
  next
    case sci
    have s: "Decimal_str d = (if dec_sign d then ''-'' else []) @ take 1 ds @ (''.'' @ drop 1 ds) @
               (''E'' @ signed_str (dec_exp d + n - 1))"
      using sci ne by (auto simp add: Decimal_str_def Let_def ds_def [symmetric] n_def [symmetric])
    have tk: "take 1 ds \<noteq> []" using ne by (cases ds) simp_all
    have "Decimal_of_str (Decimal_str d) =
            Inr \<lparr>dec_sign = dec_sign d, dec_int = nat_of_digits (take 1 ds @ drop 1 ds),
                 dec_exp = (dec_exp d + n - 1) - int (length (drop 1 ds))\<rparr>"
      unfolding s
      by (rule Decimal_of_str_parts)
         (use list_all_take_drop [OF dig, of 1] tk in \<open>simp_all add: parse_exponent_signed\<close>)
    moreover have "(dec_exp d + n - 1) - int (length (drop 1 ds)) = dec_exp d"
      using npos by (simp add: n_def)
    ultimately show ?thesis using val dd by simp
  qed
qed

lemma Decimal_rescale_fields:
  "dec_sign (Decimal_rescale d e) = dec_sign d" "dec_exp (Decimal_rescale d e) = e"
  by (simp_all add: Decimal_rescale_def)

text \<open>\<open>Decimal(f"{d:.Nf}")\<close> is \<open>d\<close> rescaled to \<open>N\<close> places.\<close>

lemma Decimal_format_f_roundtrip:
  "Decimal_of_str (Decimal_format_f places d) = Inr (Decimal_rescale d (- int places))"
proof -
  define r where "r = Decimal_rescale d (- int places)"
  define ds where "ds = digits_of_nat (dec_int r)"
  define n where "n = int (length ds)"
  have dig: "list_all is_digit ds" and ne: "ds \<noteq> []" and val: "nat_of_digits ds = dec_int r"
    by (simp_all add: ds_def digits_all_digit digits_nonempty nat_of_digits_digits)
  have npos: "1 \<le> n" using ne by (cases ds) (simp_all add: n_def)
  have ex: "dec_exp r = - int places" by (simp add: r_def Decimal_rescale_fields)
  have rr: "r = \<lparr>dec_sign = dec_sign r, dec_int = dec_int r, dec_exp = dec_exp r\<rparr>" by simp
  let ?dp = "dec_exp r + n"
  consider (small) "?dp < 0" | (zero) "?dp = 0" | (mixed) "0 < ?dp" "?dp < n" | (whole) "?dp = n"
    using ex by linarith
  then have "Decimal_of_str (Decimal_format_f places d) = Inr r"
  proof cases
    case small
    let ?z = "replicate (nat (- ?dp)) CHR ''0''"
    have s: "Decimal_format_f places d = (if dec_sign r then ''-'' else []) @ ''0'' @ (''.'' @ ?z @ ds) @ []"
      using small ne
      by (simp add: Decimal_format_f_def Let_def r_def [symmetric] ds_def [symmetric] n_def [symmetric])
    have fp: "list_all is_digit (?z @ ds)" using dig by (auto simp: zero_char list_all_iff)
    have "Decimal_of_str (Decimal_format_f places d) =
            Inr \<lparr>dec_sign = dec_sign r, dec_int = nat_of_digits (''0'' @ ?z @ ds),
                 dec_exp = 0 - int (length (?z @ ds))\<rparr>"
      unfolding s
      by (rule Decimal_of_str_parts) (use fp in \<open>simp_all add: zero_char parse_exponent_Nil\<close>)
    moreover have "nat_of_digits (''0'' @ ?z @ ds) = dec_int r"
      using val by (simp add: nat_of_digits_Cons_zero nat_of_digits_zeros)
    moreover have "0 - int (length (?z @ ds)) = dec_exp r"
      using small by (simp add: n_def)
    ultimately show ?thesis using rr by simp
  next
    case zero
    have s: "Decimal_format_f places d = (if dec_sign r then ''-'' else []) @ ''0'' @ (''.'' @ ds) @ []"
      using zero ne
      by (simp add: Decimal_format_f_def Let_def r_def [symmetric] ds_def [symmetric] n_def [symmetric])
    have "Decimal_of_str (Decimal_format_f places d) =
            Inr \<lparr>dec_sign = dec_sign r, dec_int = nat_of_digits (''0'' @ ds),
                 dec_exp = 0 - int (length ds)\<rparr>"
      unfolding s
      by (rule Decimal_of_str_parts) (use dig in \<open>simp_all add: zero_char parse_exponent_Nil\<close>)
    moreover have "nat_of_digits (''0'' @ ds) = dec_int r"
      using val by (simp add: nat_of_digits_Cons_zero)
    moreover have "0 - int (length ds) = dec_exp r"
      using zero by (simp add: n_def)
    ultimately show ?thesis using rr by simp
  next
    case mixed
    let ?k = "nat ?dp"
    have tk: "take ?k ds \<noteq> []" and dk: "drop ?k ds \<noteq> []" using mixed ne by (simp_all add: n_def)
    have s: "Decimal_format_f places d =
               (if dec_sign r then ''-'' else []) @ take ?k ds @ (''.'' @ drop ?k ds) @ []"
      using mixed ne tk dk
      by (simp add: Decimal_format_f_def Let_def r_def [symmetric] ds_def [symmetric] n_def [symmetric])
    have "Decimal_of_str (Decimal_format_f places d) =
            Inr \<lparr>dec_sign = dec_sign r, dec_int = nat_of_digits (take ?k ds @ drop ?k ds),
                 dec_exp = 0 - int (length (drop ?k ds))\<rparr>"
      unfolding s
      by (rule Decimal_of_str_parts)
         (use list_all_take_drop [OF dig, of ?k] tk in \<open>simp_all add: parse_exponent_Nil\<close>)
    moreover have "0 - int (length (drop ?k ds)) = dec_exp r"
      using mixed by (simp add: n_def)
    ultimately show ?thesis using val rr by simp
  next
    case whole
    then have e0: "dec_exp r = 0" by simp
    have nn: "nat n = length ds" "0 < n" using npos ne by (simp_all add: n_def)
    have s: "Decimal_format_f places d = (if dec_sign r then ''-'' else []) @ ds @ [] @ []"
      using whole e0 ne nn
      by (simp add: Decimal_format_f_def Let_def r_def [symmetric] ds_def [symmetric] n_def [symmetric])
    have "Decimal_of_str (Decimal_format_f places d) =
            Inr \<lparr>dec_sign = dec_sign r, dec_int = nat_of_digits (ds @ []),
                 dec_exp = 0 - int (length ([] :: string))\<rparr>"
      unfolding s
      by (rule Decimal_of_str_parts) (use dig ne in \<open>simp_all add: parse_exponent_Nil\<close>)
    then show ?thesis using val e0 rr by simp
  qed
  then show ?thesis by (simp add: r_def)
qed

section \<open>Properties of the position events\<close>

lemma bind_e_Inr: "bind_e (Inr v) f = f v"
  by (simp add: bind_e_def)

lemma dict_lookups:
  "position_event_dict cs e ''trader_id'' = Some (PStr (TraderId_value cs (trader_id e)))"
  "position_event_dict cs e ''strategy_id'' = Some (PStr (StrategyId_value cs (strategy_id e)))"
  "position_event_dict cs e ''instrument_id'' = Some (PStr (InstrumentId_value cs (instrument_id e)))"
  "position_event_dict cs e ''position_id'' = Some (PStr (PositionId_value cs (position_id e)))"
  "position_event_dict cs e ''account_id'' = Some (PStr (AccountId_value cs (account_id e)))"
  "position_event_dict cs e ''from_order'' = Some (PStr (ClientOrderId_value cs (from_order e)))"
  "position_event_dict cs e ''entry'' = Some (PStr (OrderSide_to_str cs (entry e)))"
  "position_event_dict cs e ''side'' = Some (PStr (PositionSide_to_str cs (side e)))"
  "position_event_dict cs e ''net_qty'' = Some (PStr (Decimal_str (net_qty e)))"
  "position_event_dict cs e ''quantity'' = Some (PStr (Quantity_str cs (quantity e)))"
  "position_event_dict cs e ''peak_qty'' = Some (PStr (Quantity_str cs (peak_qty e)))"
  "position_event_dict cs e ''last_qty'' = Some (PStr (Quantity_str cs (last_qty e)))"
  "position_event_dict cs e ''last_px'' = Some (PStr (Price_str cs (last_px e)))"
  "position_event_dict cs e ''currency'' = Some (PStr (Currency_code cs (currency e)))"
  "position_event_dict cs e ''avg_px_open'' = Some (PStr (Decimal_str (avg_px_open e)))"
  "position_event_dict cs e ''avg_px_close'' =
     Some (case avg_px_close e of None \<Rightarrow> PNone
           | Some d \<Rightarrow> if dec_bool d then PStr (Decimal_str d) else PNone)"
  "position_event_dict cs e ''realized_points'' = Some (PStr (Decimal_str (realized_points e)))"
  "position_event_dict cs e ''realized_return'' = Some (PStr (Decimal_format_f 5 (realized_return e)))"
  "position_event_dict cs e ''realized_pnl'' = Some (PStr (Money_to_str cs (realized_pnl e)))"
  "position_event_dict cs e ''ts_opened_ns'' = Some (PInt (sint (ts_opened_ns e)))"
  "position_event_dict cs e ''ts_closed_ns'' = Some (PInt (sint (ts_closed_ns e)))"
  "position_event_dict cs e ''duration_ns'' = Some (PInt (sint (duration_ns e)))"
  "position_event_dict cs e ''event_id'' = Some (PStr (UUID_value cs (event_id e)))"
  "position_event_dict cs e ''timestamp_ns'' = Some (PInt (sint (timestamp_ns e)))"
  by (simp_all add: position_event_dict_def)

lemma as_int64_sint: "as_int64 (PInt (sint (w :: 64 word))) = Inr w"
proof -
  have "- 9223372036854775808 \<le> sint w" "sint w < 9223372036854775808"
    using sint_ge [of w] sint_lt [of w] by simp_all
  then show ?thesis by (simp add: as_int64_def)
qed

lemma Decimal_new_str: "Decimal_new (PStr (Decimal_str d)) = Inr d"
  by (simp add: Decimal_new_def Decimal_str_roundtrip)

lemma Decimal_new_format: "Decimal_new (PStr (Decimal_format_f 5 d)) = Inr (Decimal_rescale d (- 5))"
  using Decimal_format_f_roundtrip [of 5 d] by (simp add: Decimal_new_def)

lemma truthy_Decimal_str: "truthy (PStr (Decimal_str d))"
proof -
  have "Decimal_str d \<noteq> []"
    using Decimal_str_roundtrip [of d]
    by (auto simp: Decimal_of_str_def Decimal_parse_def str_strip_def)
  then show ?thesis by (simp add: truthy_def)
qed

lemma opened_roundtrip:
  assumes cls: "event_class e = PositionOpened" and wf: "well_formed e" and rt: "codecs_roundtrip cs e"
  shows "PositionOpened_from_dict_c cs (PositionOpened_to_dict_c cs e) =
           Inr (e\<lparr>realized_return := Decimal_rescale (realized_return e) (- 5)\<rparr>)"
proof -
  from wf cls have w: "side e \<noteq> FLAT" "avg_px_close e = None" "ts_closed_ns e = 0" "duration_ns e = 0"
    by (simp_all add: well_formed_def)
  have "PositionEvent_init PositionOpened (trader_id e) (strategy_id e) (instrument_id e) (position_id e)
          (account_id e) (from_order e) (entry e) (side e) (net_qty e) (quantity e) (peak_qty e)
          (last_qty e) (last_px e) (currency e) (avg_px_open e) None (realized_points e)
          (Decimal_rescale (realized_return e) (- 5)) (realized_pnl e) (ts_opened_ns e) 0 0
          (event_id e) (timestamp_ns e) =
        e\<lparr>realized_return := Decimal_rescale (realized_return e) (- 5)\<rparr>"
    using cls w by (cases e) (simp add: PositionEvent_init_def)
  then show ?thesis
    using rt w(1)
    by (simp add: PositionOpened_from_dict_c_def PositionOpened_to_dict_c_def dict_str_def
        dict_get_def dict_lookups bind_e_Inr as_str_def codecs_roundtrip_def
        Decimal_new_str Decimal_new_format as_int64_sint PositionOpened_init_def)
qed

lemma truthy_PNone: "\<not> truthy PNone"
  by (simp add: truthy_def)

lemma changed_roundtrip:
  assumes cls: "event_class e = PositionChanged" and wf: "well_formed e" and rt: "codecs_roundtrip cs e"
    and tr: "close_price_truthy e"
  shows "PositionChanged_from_dict_c cs (PositionChanged_to_dict_c cs e) =
           Inr (e\<lparr>realized_return := Decimal_rescale (realized_return e) (- 5)\<rparr>)"
proof -
  from wf cls have w: "side e \<noteq> FLAT" "ts_closed_ns e = 0" "duration_ns e = 0"
    by (simp_all add: well_formed_def)
  have rec: "PositionEvent_init PositionChanged (trader_id e) (strategy_id e) (instrument_id e) (position_id e)
          (account_id e) (from_order e) (entry e) (side e) (net_qty e) (quantity e) (peak_qty e)
          (last_qty e) (last_px e) (currency e) (avg_px_open e) (avg_px_close e) (realized_points e)
          (Decimal_rescale (realized_return e) (- 5)) (realized_pnl e) (ts_opened_ns e) 0 0
          (event_id e) (timestamp_ns e) =
        e\<lparr>realized_return := Decimal_rescale (realized_return e) (- 5)\<rparr>"
    using cls w by (cases e) (simp add: PositionEvent_init_def)
  have close: "(if truthy (case avg_px_close e of None \<Rightarrow> PNone
                          | Some d \<Rightarrow> if dec_bool d then PStr (Decimal_str d) else PNone)
                then bind_e (Decimal_new (case avg_px_close e of None \<Rightarrow> PNone
                          | Some d \<Rightarrow> if dec_bool d then PStr (Decimal_str d) else PNone))
                       (\<lambda>d. Inr (Some d))
                else Inr None) = (Inr (avg_px_close e) :: py_error + Decimal option)"
    using tr
    by (cases "avg_px_close e")
       (simp_all add: close_price_truthy_def truthy_PNone truthy_Decimal_str Decimal_new_str bind_e_Inr)
  show ?thesis
    using rt w(1) rec
    by (simp add: PositionChanged_from_dict_c_def PositionChanged_to_dict_c_def dict_str_def
        dict_get_def dict_lookups bind_e_Inr close as_str_def codecs_roundtrip_def
        Decimal_new_str Decimal_new_format as_int64_sint PositionChanged_init_def)
qed

lemma closed_roundtrip:
  assumes cls: "event_class e = PositionClosed" and wf: "well_formed e" and rt: "codecs_roundtrip cs e"
    and tr: "close_price_truthy e"
  shows "PositionClosed_from_dict_c cs (PositionClosed_to_dict_c cs e) =
           Inr (e\<lparr>realized_return := Decimal_rescale (realized_return e) (- 5)\<rparr>)"
proof -
  from wf cls obtain d where w: "side e = FLAT" "avg_px_close e = Some d"
    by (auto simp: well_formed_def)
  have db: "dec_bool d" using tr w by (simp add: close_price_truthy_def)
  have rec: "PositionEvent_init PositionClosed (trader_id e) (strategy_id e) (instrument_id e) (position_id e)
          (account_id e) (from_order e) (entry e) FLAT (net_qty e) (quantity e) (peak_qty e)
          (last_qty e) (last_px e) (currency e) (avg_px_open e) (Some d) (realized_points e)
          (Decimal_rescale (realized_return e) (- 5)) (realized_pnl e) (ts_opened_ns e) (ts_closed_ns e)
          (duration_ns e) (event_id e) (timestamp_ns e) =
        e\<lparr>realized_return := Decimal_rescale (realized_return e) (- 5)\<rparr>"
    using cls w by (cases e) (simp add: PositionEvent_init_def)
  show ?thesis
    using rt w db rec
    by (simp add: PositionClosed_from_dict_c_def PositionClosed_to_dict_c_def dict_str_def
        dict_get_def dict_lookups bind_e_Inr as_str_def codecs_roundtrip_def
        Decimal_new_str Decimal_new_format as_int64_sint PositionClosed_init_def)
qed

lemma Decimal_rescale_same: "dec_exp d = e \<Longrightarrow> Decimal_rescale d e = d"
  by (cases d) (simp add: Decimal_rescale_def)

lemma example_opened_facts:
  "event_class example_opened = PositionOpened" "well_formed example_opened"
  "codecs_roundtrip example_codecs example_opened" "close_price_truthy example_opened"
  by (simp_all add: example_opened_def well_formed_def codecs_roundtrip_def example_codecs_def
      close_price_truthy_def)

lemma example_rescale:
  "Decimal_rescale (realized_return example_opened) (- 5) =
     \<lparr>dec_sign = False, dec_int = 12346, dec_exp = - 5\<rparr>"
  by (simp add: example_opened_def Decimal_rescale_def round_half_even_def)

text \<open>
  Claim C4, amended.  Let \<open>e\<close> be a well-formed \<open>PositionOpened\<close>, \<open>PositionChanged\<close> or
  \<open>PositionClosed\<close> event whose average close price, if it has one, is not zero,
  and let the conversions of the classes outside the sources read back
  what they wrote for \<open>e\<close>.  Then \<open>from_dict(to_dict(e))\<close> of the event's class
  succeeds and returns \<open>e\<close> with one change: \<open>realized_return\<close> comes back rounded
  (half to even) to five decimal places, because \<open>to_dict\<close> writes it with the
  format \<open>.5f\<close>.  Every other field is equal to the one of \<open>e\<close>; the decimals
  \<open>net_qty\<close>, \<open>avg_px_open\<close>, \<open>avg_px_close\<close> and \<open>realized_points\<close> go through their
  exact \<open>str\<close>.  When \<open>realized_return\<close> already has exactly five decimal places,
  the result is \<open>e\<close> itself.
\<close>

theorem from_dict_to_dict_rounds_realized_return:
  assumes "well_formed e" and "codecs_roundtrip cs e" and "close_price_truthy e"
  shows "event_from_dict_c (event_class e) cs (event_to_dict_c cs e) =
           Inr (e\<lparr>realized_return := Decimal_rescale (realized_return e) (- 5)\<rparr>) \<and>
         (dec_exp (realized_return e) = - 5 \<longrightarrow>
            event_from_dict_c (event_class e) cs (event_to_dict_c cs e) = Inr e)"
proof -
  have main: "event_from_dict_c (event_class e) cs (event_to_dict_c cs e) =
           Inr (e\<lparr>realized_return := Decimal_rescale (realized_return e) (- 5)\<rparr>)"
  proof (cases "event_class e")
    case PositionOpened
    then show ?thesis
      using opened_roundtrip [OF PositionOpened assms(1,2)]
      by (simp add: event_from_dict_c_def event_to_dict_c_def)
  next
    case PositionChanged
    then show ?thesis
      using changed_roundtrip [OF PositionChanged assms]
      by (simp add: event_from_dict_c_def event_to_dict_c_def)
  next
    case PositionClosed
    then show ?thesis
      using closed_roundtrip [OF PositionClosed assms]
      by (simp add: event_from_dict_c_def event_to_dict_c_def)
  qed
  moreover have "e\<lparr>realized_return := Decimal_rescale (realized_return e) (- 5)\<rparr> = e"
    if "dec_exp (realized_return e) = - 5"
    using Decimal_rescale_same [OF that] by simp
  ultimately show ?thesis by simp
qed

theorem from_dict_to_dict_rounds_realized_return_witness:
  "well_formed example_opened \<and> codecs_roundtrip example_codecs example_opened \<and>
   close_price_truthy example_opened \<and>
   event_from_dict_c PositionOpened example_codecs (event_to_dict_c example_codecs example_opened) =
     Inr (example_opened\<lparr>realized_return := \<lparr>dec_sign = False, dec_int = 12346, dec_exp = - 5\<rparr>\<rparr>)"
  using from_dict_to_dict_rounds_realized_return [OF example_opened_facts(2,3,4)]
    example_opened_facts example_rescale
  by simp

text \<open>
  Claim C4 as stated fails: an opened event with realized return 0.123456 comes
  back from \<open>from_dict(to_dict(e))\<close> with realized return 0.12346, a different
  number.
\<close>

theorem from_dict_to_dict_counterexample:
  "PositionOpened_from_dict_c example_codecs (PositionOpened_to_dict_c example_codecs example_opened) =
     Inr (example_opened\<lparr>realized_return := \<lparr>dec_sign = False, dec_int = 12346, dec_exp = - 5\<rparr>\<rparr>) \<and>
   realized_return example_opened = \<lparr>dec_sign = False, dec_int = 123456, dec_exp = - 6\<rparr> \<and>
   dec_value \<lparr>dec_sign = False, dec_int = 12346, dec_exp = - 5\<rparr> \<noteq>
     dec_value \<lparr>dec_sign = False, dec_int = 123456, dec_exp = - 6\<rparr> \<and>
   PositionOpened_from_dict_c example_codecs (PositionOpened_to_dict_c example_codecs example_opened) \<noteq>
     Inr example_opened"
proof -
  have a: "PositionOpened_from_dict_c example_codecs (PositionOpened_to_dict_c example_codecs example_opened) =
     Inr (example_opened\<lparr>realized_return := \<lparr>dec_sign = False, dec_int = 12346, dec_exp = - 5\<rparr>\<rparr>)"
    using opened_roundtrip [OF example_opened_facts(1,2,3)] example_rescale by simp
  have b: "realized_return example_opened = \<lparr>dec_sign = False, dec_int = 123456, dec_exp = - 6\<rparr>"
    by (simp add: example_opened_def)
  have c: "dec_value \<lparr>dec_sign = False, dec_int = 12346, dec_exp = - 5\<rparr> \<noteq>
     dec_value \<lparr>dec_sign = False, dec_int = 123456, dec_exp = - 6\<rparr>"
    by (simp add: dec_value_def)
  have d: "example_opened\<lparr>realized_return := \<lparr>dec_sign = False, dec_int = 12346, dec_exp = - 5\<rparr>\<rparr>
             \<noteq> example_opened"
  proof
    assume "example_opened\<lparr>realized_return := \<lparr>dec_sign = False, dec_int = 12346, dec_exp = - 5\<rparr>\<rparr>
             = example_opened"
    then have "realized_return (example_opened\<lparr>realized_return := \<lparr>dec_sign = False, dec_int = 12346, dec_exp = - 5\<rparr>\<rparr>)
             = realized_return example_opened" by simp
    then show False using b by simp
  qed
  show ?thesis using a b c d by simp
qed

lemma outcome_fits_bind: "(\<And>v. outcome_fits (f v)) \<Longrightarrow> outcome_fits (bind_e x f)"
  by (cases x) (simp_all add: bind_e_def outcome_fits_def)

lemma opened_init_fits:
  "outcome_fits (PositionOpened_init t s i p a f en sd nq q pq lq lp c ao rp rr pnl tso eid ts)"
  by (simp add: outcome_fits_def side_fits_def PositionOpened_init_def PositionEvent_init_def)

lemma changed_init_fits:
  "outcome_fits (PositionChanged_init t s i p a f en sd nq q pq lq lp c ao ac rp rr pnl tso eid ts)"
  by (simp add: outcome_fits_def side_fits_def PositionChanged_init_def PositionEvent_init_def)

lemma closed_init_fits:
  "outcome_fits (PositionClosed_init t s i p a f en sd nq q pq lq lp c ao ac rp rr pnl tso tsc dur eid ts)"
  by (simp add: outcome_fits_def side_fits_def PositionClosed_init_def PositionEvent_init_def
      split: option.splits)

lemma opened_from_dict_fits: "outcome_fits (PositionOpened_from_dict_c cs vs)"
  unfolding PositionOpened_from_dict_c_def
  by (intro outcome_fits_bind) (rule opened_init_fits)

lemma changed_from_dict_fits: "outcome_fits (PositionChanged_from_dict_c cs vs)"
  unfolding PositionChanged_from_dict_c_def
  by (intro outcome_fits_bind) (rule changed_init_fits)

lemma closed_from_dict_fits: "outcome_fits (PositionClosed_from_dict_c cs vs)"
  unfolding PositionClosed_from_dict_c_def
  by (intro outcome_fits_bind) (rule closed_init_fits)

lemma opened_create_fits: "outcome_fits (PositionOpened_create_c po fo uo ts)"
  by (simp add: PositionOpened_create_c_def opened_init_fits split: option.splits)
     (simp add: outcome_fits_def)

lemma changed_create_fits: "outcome_fits (PositionChanged_create_c po fo uo ts)"
  by (simp add: PositionChanged_create_c_def changed_init_fits split: option.splits)
     (simp add: outcome_fits_def)

lemma closed_create_fits: "outcome_fits (PositionClosed_create_c po fo uo ts)"
  by (simp add: PositionClosed_create_c_def closed_init_fits split: option.splits)
     (simp add: outcome_fits_def)

lemma opened_create_succeeds:
  "pos_side position \<noteq> FLAT \<Longrightarrow>
   \<exists>e. PositionOpened_create_c (Some position) (Some fill) (Some uid) ts = Inr e \<and>
       side e = pos_side position \<and> event_class e = PositionOpened"
  by (simp add: PositionOpened_create_c_def PositionOpened_init_def PositionEvent_init_def)

lemma changed_create_succeeds:
  "pos_side position \<noteq> FLAT \<Longrightarrow>
   \<exists>e. PositionChanged_create_c (Some position) (Some fill) (Some uid) ts = Inr e \<and>
       side e = pos_side position \<and> event_class e = PositionChanged"
  by (simp add: PositionChanged_create_c_def PositionChanged_init_def PositionEvent_init_def)

lemma closed_create_succeeds:
  "pos_side position = FLAT \<Longrightarrow> pos_avg_px_close position \<noteq> None \<Longrightarrow>
   \<exists>e. PositionClosed_create_c (Some position) (Some fill) (Some uid) ts = Inr e \<and>
       side e = FLAT \<and> event_class e = PositionClosed"
  by (auto simp add: PositionClosed_create_c_def PositionClosed_init_def PositionEvent_init_def)

text \<open>
  Claim C10.  Whatever its arguments, each constructor, each \<open>create_c\<close> and each
  \<open>from_dict_c\<close> either raises or returns an event whose side fits its class:
  not \<open>FLAT\<close> for \<open>PositionOpened\<close> and \<open>PositionChanged\<close>, \<open>FLAT\<close> for
  \<open>PositionClosed\<close>.  Constructing with the other side fails the assertion.  And
  \<open>create_c\<close>, given a position, a fill and an event id, succeeds when the
  position's side is the one its class asks for (for \<open>PositionClosed\<close> the
  position also has an average close price).
\<close>

theorem event_side_fits_class:
  "outcome_fits (PositionOpened_init t s i p a f en sd nq q pq lq lp c ao rp rr pnl tso eid ts) \<and>
   outcome_fits (PositionChanged_init t s i p a f en sd nq q pq lq lp c ao ac rp rr pnl tso eid ts) \<and>
   outcome_fits (PositionClosed_init t s i p a f en sd nq q pq lq lp c ao ac rp rr pnl tso tsc dur eid ts) \<and>
   outcome_fits (PositionOpened_create_c po fo uo ts) \<and>
   outcome_fits (PositionChanged_create_c po fo uo ts) \<and>
   outcome_fits (PositionClosed_create_c po fo uo ts) \<and>
   outcome_fits (PositionOpened_from_dict_c cs vs) \<and>
   outcome_fits (PositionChanged_from_dict_c cs vs) \<and>
   outcome_fits (PositionClosed_from_dict_c cs vs) \<and>
   (sd = FLAT \<longrightarrow>
      PositionOpened_init t s i p a f en sd nq q pq lq lp c ao rp rr pnl tso eid ts = Inl AssertionError \<and>
      PositionChanged_init t s i p a f en sd nq q pq lq lp c ao ac rp rr pnl tso eid ts = Inl AssertionError) \<and>
   (sd \<noteq> FLAT \<longrightarrow>
      PositionClosed_init t s i p a f en sd nq q pq lq lp c ao (Some d) rp rr pnl tso tsc dur eid ts =
        Inl AssertionError) \<and>
   (pos_side position \<noteq> FLAT \<longrightarrow>
      (\<exists>e. PositionOpened_create_c (Some position) (Some fill) (Some uid) ts = Inr e \<and>
           side e = pos_side position) \<and>
      (\<exists>e. PositionChanged_create_c (Some position) (Some fill) (Some uid) ts = Inr e \<and>
           side e = pos_side position)) \<and>
   (pos_side position = FLAT \<and> pos_avg_px_close position \<noteq> None \<longrightarrow>
      (\<exists>e. PositionClosed_create_c (Some position) (Some fill) (Some uid) ts = Inr e \<and> side e = FLAT))"
proof -
  have a: "sd = FLAT \<longrightarrow>
      PositionOpened_init t s i p a f en sd nq q pq lq lp c ao rp rr pnl tso eid ts = Inl AssertionError \<and>
      PositionChanged_init t s i p a f en sd nq q pq lq lp c ao ac rp rr pnl tso eid ts = Inl AssertionError"
    by (simp add: PositionOpened_init_def PositionChanged_init_def)
  have b: "sd \<noteq> FLAT \<longrightarrow>
      PositionClosed_init t s i p a f en sd nq q pq lq lp c ao (Some d) rp rr pnl tso tsc dur eid ts =
        Inl AssertionError"
    by (simp add: PositionClosed_init_def)
  have c: "pos_side position \<noteq> FLAT \<longrightarrow>
      (\<exists>e. PositionOpened_create_c (Some position) (Some fill) (Some uid) ts = Inr e \<and>
           side e = pos_side position) \<and>
      (\<exists>e. PositionChanged_create_c (Some position) (Some fill) (Some uid) ts = Inr e \<and>
           side e = pos_side position)"
    using opened_create_succeeds [of position fill uid ts]
      changed_create_succeeds [of position fill uid ts] by blast
  have d: "pos_side position = FLAT \<and> pos_avg_px_close position \<noteq> None \<longrightarrow>
      (\<exists>e. PositionClosed_create_c (Some position) (Some fill) (Some uid) ts = Inr e \<and> side e = FLAT)"
    using closed_create_succeeds [of position fill uid ts] by blast
  show ?thesis
    by (intro conjI opened_init_fits changed_init_fits closed_init_fits opened_create_fits
        changed_create_fits closed_create_fits opened_from_dict_fits changed_from_dict_fits
        closed_from_dict_fits a b c d)
qed

theorem event_side_fits_class_witness:
  "pos_side (example_model_position LONG None) \<noteq> FLAT \<and>
   PositionOpened_create_c (Some (example_model_position LONG None)) (Some example_fill_event)
     (Some ''2d89666b-1a1e-4a75-b193-4eb3b454c757'') 3000 = Inr example_opened \<and>
   side example_opened = LONG \<and>
   PositionOpened_create_c (Some (example_model_position FLAT None)) (Some example_fill_event)
     (Some ''2d89666b-1a1e-4a75-b193-4eb3b454c757'') 3000 = Inl AssertionError \<and>
   PositionClosed_create_c
     (Some (example_model_position LONG (Some \<lparr>dec_sign = False, dec_int = 100002, dec_exp = - 5\<rparr>)))
     (Some example_fill_event) (Some ''2d89666b-1a1e-4a75-b193-4eb3b454c757'') 3000 = Inl AssertionError \<and>
   pos_side (example_model_position FLAT (Some \<lparr>dec_sign = False, dec_int = 100002, dec_exp = - 5\<rparr>)) = FLAT \<and>
   pos_avg_px_close (example_model_position FLAT (Some \<lparr>dec_sign = False, dec_int = 100002, dec_exp = - 5\<rparr>))
     \<noteq> None \<and>
   (\<exists>e. PositionClosed_create_c
          (Some (example_model_position FLAT (Some \<lparr>dec_sign = False, dec_int = 100002, dec_exp = - 5\<rparr>)))
          (Some example_fill_event) (Some ''2d89666b-1a1e-4a75-b193-4eb3b454c757'') 3000 = Inr e \<and>
        side e = FLAT)"
proof -
  let ?u = "''2d89666b-1a1e-4a75-b193-4eb3b454c757''"
  let ?d = "\<lparr>dec_sign = False, dec_int = 100002, dec_exp = - 5\<rparr>"
  have h1: "pos_side (example_model_position LONG None) \<noteq> FLAT"
    by (simp add: example_model_position_def)
  have c1: "PositionOpened_create_c (Some (example_model_position LONG None)) (Some example_fill_event)
     (Some ?u) 3000 = Inr example_opened"
    by (simp add: PositionOpened_create_c_def PositionOpened_init_def PositionEvent_init_def
        example_model_position_def example_fill_event_def example_opened_def)
  have c2: "side example_opened = LONG" by (simp add: example_opened_def)
  have c3: "PositionOpened_create_c (Some (example_model_position FLAT None)) (Some example_fill_event)
     (Some ?u) 3000 = Inl AssertionError"
    by (simp add: PositionOpened_create_c_def PositionOpened_init_def example_model_position_def)
  have c4: "PositionClosed_create_c (Some (example_model_position LONG (Some ?d)))
     (Some example_fill_event) (Some ?u) 3000 = Inl AssertionError"
    by (simp add: PositionClosed_create_c_def PositionClosed_init_def example_model_position_def)
  have h2: "pos_side (example_model_position FLAT (Some ?d)) = FLAT \<and>
            pos_avg_px_close (example_model_position FLAT (Some ?d)) \<noteq> None"
    by (simp add: example_model_position_def)
  note last = event_side_fits_class [where position = "example_model_position FLAT (Some ?d)"
      and fill = example_fill_event and uid = ?u and ts = 3000,
      THEN conjunct2, THEN conjunct2, THEN conjunct2, THEN conjunct2, THEN conjunct2, THEN conjunct2,
      THEN conjunct2, THEN conjunct2, THEN conjunct2, THEN conjunct2, THEN conjunct2, THEN conjunct2]
  from last h2 have c5: "\<exists>e. PositionClosed_create_c (Some (example_model_position FLAT (Some ?d)))
          (Some example_fill_event) (Some ?u) 3000 = Inr e \<and> side e = FLAT"
    by (rule mp)
  from h1 c1 c2 c3 c4 h2 c5 show ?thesis by (intro conjI) simp_all
qed

end
